theory Spec2Isabelle
  imports Main "HOL-Library.Word"
begin

section \<open>The TLS session of the synatlsmoc driver (tls\_session.c)\<close>

text \<open>
  A shallow embedding of \<^verbatim>\<open>libfprint/drivers/synatlsmoc/tls_session.c\<close>.
  The session struct is a record that every function takes and returns; OpenSSL and the
  byte writer/reader of libfprint are outside the file and enter as the record
  \<open>platform\<close> and as list functions. A failed \<^verbatim>\<open>g_assert\<close> ends the process
  (\<open>Aborted\<close>); a \<^verbatim>\<open>return FALSE\<close> leaves the session as it is at that moment
  (\<open>Failed\<close>).
\<close>

type_synonym byte = "8 word"
type_synonym bytes = "8 word list"

subsection \<open>Byte writer and byte reader\<close>

text \<open>
  Modelled from the spec: the FpiByteWriter and FpiByteReader operations
  (fpi-byte-writer.h, fpi-byte-reader.h are not among the sources). Section 4.1: a writer
  appends unsigned integers of widths 8/16/24/32/64 in big- or little-endian order and
  byte slices to a growable buffer; a reader advances a cursor and fails when fewer bytes
  remain than asked for. A growable writer is the list of the bytes written so far, its
  position the length of that list; a put takes the low bits of its argument.
\<close>

definition put_uint8 :: "byte \<Rightarrow> bytes" where
  "put_uint8 v = [v]"

definition put_uint16_be :: "16 word \<Rightarrow> bytes" where
  "put_uint16_be v = [ucast (drop_bit 8 v), ucast v]"

definition put_uint16_le :: "16 word \<Rightarrow> bytes" where
  "put_uint16_le v = [ucast v, ucast (drop_bit 8 v)]"

definition put_uint24_be :: "32 word \<Rightarrow> bytes" where
  "put_uint24_be v = [ucast (drop_bit 16 v), ucast (drop_bit 8 v), ucast v]"

definition put_uint64_be :: "64 word \<Rightarrow> bytes" where
  "put_uint64_be v =
     [ucast (drop_bit 56 v), ucast (drop_bit 48 v), ucast (drop_bit 40 v),
      ucast (drop_bit 32 v), ucast (drop_bit 24 v), ucast (drop_bit 16 v),
      ucast (drop_bit 8 v), ucast v]"

text \<open>\<open>put_data data n\<close> is what a put of the first \<open>n\<close> bytes at \<open>data\<close> appends.\<close>

definition put_data :: "bytes \<Rightarrow> nat \<Rightarrow> bytes" where
  "put_data data n = take n data"

definition fill :: "byte \<Rightarrow> nat \<Rightarrow> bytes" where
  "fill v n = replicate n v"

text \<open>A reader is the list of the bytes that remain; a read returns the value and the rest.\<close>

definition get_uint8 :: "bytes \<Rightarrow> (byte \<times> bytes) option" where
  "get_uint8 r = (case r of [] \<Rightarrow> None | b # rest \<Rightarrow> Some (b, rest))"

definition get_uint16_be :: "bytes \<Rightarrow> (16 word \<times> bytes) option" where
  "get_uint16_be r =
     (case r of
        b1 # b0 # rest \<Rightarrow> Some (push_bit 8 (ucast b1) + ucast b0, rest)
      | _ \<Rightarrow> None)"

definition get_uint24_be :: "bytes \<Rightarrow> (32 word \<times> bytes) option" where
  "get_uint24_be r =
     (case r of
        b2 # b1 # b0 # rest \<Rightarrow>
          Some (push_bit 16 (ucast b2) + push_bit 8 (ucast b1) + ucast b0, rest)
      | _ \<Rightarrow> None)"

definition dup_data :: "nat \<Rightarrow> bytes \<Rightarrow> (bytes \<times> bytes) option" where
  "dup_data n r = (if n \<le> length r then Some (take n r, drop n r) else None)"

subsection \<open>Constants\<close>

text \<open>The macros of tls\_session.c.\<close>

definition RANDOM_SIZE :: nat where "RANDOM_SIZE = 32"
definition MASTER_SECRET_SIZE :: nat where "MASTER_SECRET_SIZE = 48"
definition VERIFY_DATA_SIZE :: nat where "VERIFY_DATA_SIZE = 12"
definition MAX_SESSION_ID_SIZE :: nat where "MAX_SESSION_ID_SIZE = 32"
definition MAX_KEY_BLOCK_SIZE :: nat where "MAX_KEY_BLOCK_SIZE = 128"

datatype HandshakePhase =
  HANDSHAKE_BEGIN | CLIENT_HELLO_SENT | SUITE_HANDSHAKE | SERVER_DONE | FINISHED

text \<open>\<open>CipherSuiteType\<close> and \<open>CertificateSigType\<close> are stored in integer fields.\<close>

definition TLS_NULL_WITH_NULL_NULL :: "16 word" where
  "TLS_NULL_WITH_NULL_NULL = 0x0000"

definition TLS_ECDH_ECDSA_WITH_AES_256_GCM_SHA384 :: "16 word" where
  "TLS_ECDH_ECDSA_WITH_AES_256_GCM_SHA384 = 0xC02E"

definition ECDSA_SIGN :: byte where "ECDSA_SIGN = 64"

text \<open>The values of the OpenSSL headers (ssl3.h, tls1.h, obj\_mac.h) the file uses.\<close>

definition TLS1_2_VERSION :: "16 word" where "TLS1_2_VERSION = 0x0303"

definition SSL3_RT_CHANGE_CIPHER_SPEC :: byte where "SSL3_RT_CHANGE_CIPHER_SPEC = 20"
definition SSL3_RT_ALERT :: byte where "SSL3_RT_ALERT = 21"
definition SSL3_RT_HANDSHAKE :: byte where "SSL3_RT_HANDSHAKE = 22"
definition SSL3_RT_APPLICATION_DATA :: byte where "SSL3_RT_APPLICATION_DATA = 23"

definition SSL3_MT_CLIENT_HELLO :: byte where "SSL3_MT_CLIENT_HELLO = 1"
definition SSL3_MT_SERVER_HELLO :: byte where "SSL3_MT_SERVER_HELLO = 2"
definition SSL3_MT_CERTIFICATE :: byte where "SSL3_MT_CERTIFICATE = 11"
definition SSL3_MT_CERTIFICATE_REQUEST :: byte where "SSL3_MT_CERTIFICATE_REQUEST = 13"
definition SSL3_MT_SERVER_DONE :: byte where "SSL3_MT_SERVER_DONE = 14"
definition SSL3_MT_CERTIFICATE_VERIFY :: byte where "SSL3_MT_CERTIFICATE_VERIFY = 15"
definition SSL3_MT_CLIENT_KEY_EXCHANGE :: byte where "SSL3_MT_CLIENT_KEY_EXCHANGE = 16"
definition SSL3_MT_FINISHED :: byte where "SSL3_MT_FINISHED = 20"

definition SSL3_AL_WARNING :: byte where "SSL3_AL_WARNING = 1"
definition SSL3_AL_FATAL :: byte where "SSL3_AL_FATAL = 2"
definition SSL3_AD_CLOSE_NOTIFY :: byte where "SSL3_AD_CLOSE_NOTIFY = 0"

definition SN_sha256 :: string where "SN_sha256 = ''SHA256''"
definition SN_sha384 :: string where "SN_sha384 = ''SHA384''"

subsection \<open>Data\<close>

record Handshake =
  msg_type :: byte
  msg_length :: "32 word"
  body :: bytes

record TlsRecord =
  rec_type :: byte
  rec_version :: "16 word"
  rec_length :: "16 word"
  fragment :: bytes

text \<open>The fields of \<open>SensorPairingData\<close> (declared in tls\_session.h) that the file reads.\<close>

record SensorPairingData =
  client_cert_raw :: bytes
  remote_cert_raw :: bytes
  remote_key :: bytes
  remote_cert_pub_key :: bytes

text \<open>
  What the file takes from outside. \<open>CERTIFICATE_SIZE\<close> is a macro of a header that is
  not among the sources. The OpenSSL calls are functions of their inputs; those whose
  failure the code answers with \<^verbatim>\<open>g_assert_not_reached\<close> and that cannot fail on
  well-formed input are total here. \<open>RAND_byte i\<close> is the i-th byte the process-wide
  generator hands out. \<open>EVP_KDF_derive\<close> (TLS1-PRF) takes the digest name, the secret,
  the two seed parameters (label, seed) and the output size, and may fail.
  \<open>EVP_EC_gen_pub\<close> is the encoded public key of the ephemeral key pair and
  \<open>EVP_PKEY_derive\<close> its shared secret with a peer key.
\<close>

record platform =
  CERTIFICATE_SIZE :: nat
  RAND_byte :: "nat \<Rightarrow> byte"
  EVP_sha256 :: "bytes \<Rightarrow> bytes"
  EVP_KDF_derive :: "string \<Rightarrow> bytes \<Rightarrow> string \<Rightarrow> bytes \<Rightarrow> nat \<Rightarrow> bytes option"
  EVP_aes_256_gcm_encrypt :: "bytes \<Rightarrow> bytes \<Rightarrow> bytes \<Rightarrow> bytes \<Rightarrow> bytes \<times> bytes"
  EVP_aes_256_gcm_decrypt :: "bytes \<Rightarrow> bytes \<Rightarrow> bytes \<Rightarrow> bytes \<Rightarrow> bytes \<Rightarrow> bytes option"
  EVP_EC_gen_pub :: bytes
  EVP_PKEY_derive :: "bytes \<Rightarrow> bytes"
  EVP_DigestSign :: "bytes \<Rightarrow> bytes \<Rightarrow> bytes"

text \<open>
  \<open>struct _TlsSession\<close>. A key or IV buffer and its length field are one list. Two fields
  are not in the struct and never read by the code: \<open>rand_pos\<close> counts the random bytes
  drawn so far, and \<open>content_buffer_owner\<close> records, for each byte of
  \<open>content_buffer\<close>, the type of the record it was appended for.
\<close>

record TlsSession =
  send_closed :: bool
  recv_closed :: bool
  handshake_phase :: HandshakePhase
  handshake_buffer :: bytes
  server_cs :: "16 word"
  client_cs :: "16 word"
  pending_cs :: "16 word"
  master_secret :: bytes
  client_random :: bytes
  server_random :: bytes
  encr_seq_num :: "64 word"
  decr_seq_num :: "64 word"
  encr_key :: bytes
  decr_key :: bytes
  encr_iv :: bytes
  decr_iv :: bytes
  version :: "16 word"
  session_id_size :: byte
  session_id :: bytes
  suites_size :: "16 word"
  suites :: bytes
  send_buffer :: bytes
  content_buffer :: bytes
  content_buffer_type :: byte
  application_data :: bytes
  hash_algo :: string
  cert_request :: byte
  pairing_data :: SensorPairingData
  rand_pos :: nat
  content_buffer_owner :: "byte list"

datatype FpDeviceError = FP_DEVICE_ERROR_GENERAL | FP_DEVICE_ERROR_PROTO

text \<open>
  The outcome of a call: \<open>Ok\<close> for \<^verbatim>\<open>return TRUE\<close>, \<open>Failed\<close> for
  \<^verbatim>\<open>return FALSE\<close> with the error that was set (if one was) and the session as the
  call left it, \<open>Aborted\<close> for a failed assertion.
\<close>

datatype 'a outcome = Ok 'a | Failed "FpDeviceError option" TlsSession | Aborted

definition RAND_bytes :: "platform \<Rightarrow> TlsSession \<Rightarrow> nat \<Rightarrow> bytes \<times> TlsSession" where
  "RAND_bytes p self n =
     (map (RAND_byte p) [rand_pos self ..< rand_pos self + n],
      self\<lparr>rand_pos := rand_pos self + n\<rparr>)"

definition tls_prf ::
  "platform \<Rightarrow> bytes \<Rightarrow> string \<Rightarrow> bytes \<Rightarrow> nat \<Rightarrow> string \<Rightarrow> bytes option" where
  "tls_prf p master label seed outsize algo = EVP_KDF_derive p algo master label seed outsize"

definition tls_session_handshake_hash :: "platform \<Rightarrow> TlsSession \<Rightarrow> bytes" where
  "tls_session_handshake_hash p self = EVP_sha256 p (handshake_buffer self)"

subsection \<open>Record protection\<close>

text \<open>
  \<open>tls_session_encrypt\<close>: the switch on \<open>client_cs\<close>. Sizes that the code keeps
  in \<^verbatim>\<open>gsize\<close> variables are list lengths; a put of a 16-bit field takes their
  low 16 bits. The GCM nonce is the first 4 bytes of \<open>encr_iv\<close> followed by the 8
  random bytes (\<open>encr_iv_len\<close> is 4 whenever a key block has been installed), and the
  tag buffer has 16 bytes.
\<close>

definition tls_session_encrypt ::
  "platform \<Rightarrow> TlsSession \<Rightarrow> byte \<Rightarrow> bytes \<Rightarrow> (TlsSession \<times> bytes) outcome" where
  "tls_session_encrypt p self type ptext =
     (let writer = put_uint8 type @ put_uint16_le (version self) in
      if client_cs self = TLS_NULL_WITH_NULL_NULL then
        Ok (self, writer @ put_uint16_be (of_nat (length ptext)) @ ptext)
      else if client_cs self = TLS_ECDH_ECDSA_WITH_AES_256_GCM_SHA384 then
        (let (nonce, self1) = RAND_bytes p self 8;
             gcm_iv = take 4 (encr_iv self1) @ nonce;
             additional =
               put_uint64_be (encr_seq_num self1) @ put_uint8 type @
               put_uint16_be (version self1) @ put_uint16_be (of_nat (length ptext));
             (cdata, tag) =
               EVP_aes_256_gcm_encrypt p (encr_key self1) gcm_iv additional ptext
         in Ok (self1\<lparr>encr_seq_num := encr_seq_num self1 + 1\<rparr>,
                writer @ put_uint16_be (of_nat (8 + length cdata + 16)) @
                nonce @ cdata @ put_data tag 16))
      else Failed (Some FP_DEVICE_ERROR_PROTO) self)"

text \<open>
  \<open>tls_session_decrypt\<close>: with fewer than 8 + 16 bytes one of the three reads fails
  and the assertion on them stops the process; so does a tag that does not verify.
\<close>

definition tls_session_decrypt ::
  "platform \<Rightarrow> TlsSession \<Rightarrow> byte \<Rightarrow> 16 word \<Rightarrow> bytes \<Rightarrow> (TlsSession \<times> bytes) outcome" where
  "tls_session_decrypt p self type ver ctext =
     (if server_cs self = TLS_NULL_WITH_NULL_NULL then Ok (self, ctext)
      else if server_cs self = TLS_ECDH_ECDSA_WITH_AES_256_GCM_SHA384 then
        (if length ctext < 8 + 16 then Aborted
         else
           (let nonce = take 8 ctext;
                cdata = take (length ctext - 8 - 16) (drop 8 ctext);
                tag = drop (length ctext - 16) ctext;
                gcm_iv = decr_iv self @ nonce;
                additional =
                  put_uint64_be (decr_seq_num self) @ put_uint8 type @
                  put_uint16_be ver @ put_uint16_be (of_nat (length ctext - 8 - 16))
            in case EVP_aes_256_gcm_decrypt p (decr_key self) gcm_iv additional cdata tag of
                 None \<Rightarrow> Aborted
               | Some ptext \<Rightarrow> Ok (self\<lparr>decr_seq_num := decr_seq_num self + 1\<rparr>, ptext)))
      else Failed (Some FP_DEVICE_ERROR_PROTO) self)"

subsection \<open>Send path\<close>

text \<open>
  The content buffer is taken out and re-initialised before the record is built, so it is
  empty also when \<open>tls_session_encrypt\<close> fails; its type is zeroed only after success.
\<close>

definition tls_session_flush_content_buffer :: "platform \<Rightarrow> TlsSession \<Rightarrow> TlsSession outcome" where
  "tls_session_flush_content_buffer p self =
     (if content_buffer_type self \<noteq> 0 then
        (let plaintext = content_buffer self;
             self1 = self\<lparr>content_buffer := [], content_buffer_owner := []\<rparr>
         in case tls_session_encrypt p self1 (content_buffer_type self1) plaintext of
              Aborted \<Rightarrow> Aborted
            | Failed e self2 \<Rightarrow> Failed e self2
            | Ok (self2, ciphertext) \<Rightarrow>
                Ok (self2\<lparr>send_buffer := send_buffer self2 @ ciphertext,
                          content_buffer_type := 0\<rparr>))
      else Ok self)"

definition tls_session_flush_send_buffer ::
  "platform \<Rightarrow> TlsSession \<Rightarrow> (TlsSession \<times> bytes) outcome" where
  "tls_session_flush_send_buffer p self =
     (case tls_session_flush_content_buffer p self of
        Aborted \<Rightarrow> Aborted
      | Failed e self1 \<Rightarrow> Failed e self1
      | Ok self1 \<Rightarrow> Ok (self1\<lparr>send_buffer := []\<rparr>, send_buffer self1))"

definition tls_session_send :: "platform \<Rightarrow> TlsSession \<Rightarrow> TlsRecord \<Rightarrow> TlsSession outcome" where
  "tls_session_send p self record =
     (if send_closed self then Aborted
      else
        (case (if content_buffer_type self \<noteq> 0 \<and> content_buffer_type self \<noteq> rec_type record
               then tls_session_flush_content_buffer p self else Ok self) of
           Aborted \<Rightarrow> Aborted
         | Failed e self1 \<Rightarrow> Failed e self1
         | Ok self1 \<Rightarrow>
             (let data = put_data (fragment record) (unat (rec_length record))
              in Ok (self1\<lparr>content_buffer := content_buffer self1 @ data,
                           content_buffer_owner :=
                             content_buffer_owner self1 @ replicate (length data) (rec_type record),
                           content_buffer_type := rec_type record\<rparr>))))"

definition tls_session_has_data :: "TlsSession \<Rightarrow> bool" where
  "tls_session_has_data self \<longleftrightarrow> length (send_buffer self) > 0 \<or> length (content_buffer self) > 0"

definition tls_session_send_alert ::
  "platform \<Rightarrow> TlsSession \<Rightarrow> byte \<Rightarrow> byte \<Rightarrow> TlsSession outcome" where
  "tls_session_send_alert p self level description =
     (let writer = put_uint8 level @ put_uint8 description;
          record = \<lparr>rec_type = SSL3_RT_ALERT, rec_version = 0,
                    rec_length = of_nat (length writer), fragment = writer\<rparr>
      in case tls_session_send p self record of
           Aborted \<Rightarrow> Aborted
         | Failed e self1 \<Rightarrow> Failed None self1
         | Ok self1 \<Rightarrow>
             Ok (if level = SSL3_AL_WARNING then self1\<lparr>send_closed := True\<rparr> else self1))"

definition tls_session_close :: "platform \<Rightarrow> TlsSession \<Rightarrow> TlsSession outcome" where
  "tls_session_close p self =
     (if send_closed self then Ok self
      else
        (case tls_session_send_alert p self SSL3_AL_WARNING SSL3_AD_CLOSE_NOTIFY of
           Aborted \<Rightarrow> Aborted
         | Failed e self1 \<Rightarrow> Failed e self1
         | Ok self1 \<Rightarrow> Ok (self1\<lparr>send_closed := True\<rparr>)))"

text \<open>
  The bytes of a handshake message as the writer of
  \<open>tls_session_send_handshake_msg\<close> builds them: type, 24-bit length, body.
\<close>

definition handshake_msg_bytes :: "Handshake \<Rightarrow> bytes" where
  "handshake_msg_bytes msg =
     put_uint8 (msg_type msg) @ put_uint24_be (msg_length msg) @
     put_data (body msg) (unat (msg_length msg))"

definition tls_session_send_handshake_msg ::
  "platform \<Rightarrow> TlsSession \<Rightarrow> Handshake \<Rightarrow> TlsSession outcome" where
  "tls_session_send_handshake_msg p self msg =
     (let writer = handshake_msg_bytes msg;
          record = \<lparr>rec_type = SSL3_RT_HANDSHAKE, rec_version = TLS1_2_VERSION,
                    rec_length = of_nat (length writer), fragment = writer\<rparr>;
          self1 = (if msg_type msg \<noteq> SSL3_MT_FINISHED
                   then self\<lparr>handshake_buffer := handshake_buffer self @
                          put_data (fragment record) (unat (rec_length record))\<rparr>
                   else self)
      in tls_session_send p self1 record)"

definition client_hello_body :: "TlsSession \<Rightarrow> bytes" where
  "client_hello_body self =
     put_uint16_be (version self) @
     put_data (client_random self) RANDOM_SIZE @
     put_uint8 (session_id_size self) @
     put_data (session_id self) (unat (session_id_size self)) @
     put_uint16_be (suites_size self) @
     put_data (suites self) (unat (suites_size self)) @
     put_uint8 0 @
     put_uint16_be 0x0a @ put_uint16_be 4 @ put_data [0x00, 0x02, 0x00, 0x17] 4 @
     put_uint16_be 0x0b @ put_uint16_be 2 @ put_data [0x01, 0x00] 2"

text \<open>
  Each of the following functions fills a \<open>Handshake\<close> and hands it to
  \<open>tls_session_send_handshake_msg\<close>; the message it fills is a definition of its own.
\<close>

definition client_hello_msg :: "TlsSession \<Rightarrow> Handshake" where
  "client_hello_msg self =
     (let writer = client_hello_body self
      in \<lparr>msg_type = SSL3_MT_CLIENT_HELLO, msg_length = of_nat (length writer),
          body = writer\<rparr>)"

definition tls_session_send_client_hello :: "platform \<Rightarrow> TlsSession \<Rightarrow> TlsSession outcome" where
  "tls_session_send_client_hello p self =
     tls_session_send_handshake_msg p self (client_hello_msg self)"

definition finished_msg :: "bytes \<Rightarrow> Handshake" where
  "finished_msg verify_data =
     (let writer = put_data verify_data 12
      in \<lparr>msg_type = SSL3_MT_FINISHED, msg_length = of_nat (length writer),
          body = writer\<rparr>)"

definition tls_session_send_finished ::
  "platform \<Rightarrow> TlsSession \<Rightarrow> bytes \<Rightarrow> TlsSession outcome" where
  "tls_session_send_finished p self verify_data =
     tls_session_send_handshake_msg p self (finished_msg verify_data)"

definition certificate_msg :: "platform \<Rightarrow> TlsSession \<Rightarrow> Handshake" where
  "certificate_msg p self =
     (let writer =
            put_uint24_be (of_nat (CERTIFICATE_SIZE p)) @
            put_uint24_be (of_nat (CERTIFICATE_SIZE p)) @
            fill 0 2 @
            put_data (client_cert_raw (pairing_data self)) (CERTIFICATE_SIZE p)
      in \<lparr>msg_type = SSL3_MT_CERTIFICATE, msg_length = of_nat (length writer),
          body = writer\<rparr>)"

definition tls_session_send_certificate :: "platform \<Rightarrow> TlsSession \<Rightarrow> TlsSession outcome" where
  "tls_session_send_certificate p self =
     tls_session_send_handshake_msg p self (certificate_msg p self)"

definition client_key_exchange_msg :: "bytes \<Rightarrow> Handshake" where
  "client_key_exchange_msg key =
     \<lparr>msg_type = SSL3_MT_CLIENT_KEY_EXCHANGE, msg_length = of_nat (length key),
      body = key\<rparr>"

definition tls_session_send_client_key_exchange ::
  "platform \<Rightarrow> TlsSession \<Rightarrow> bytes \<Rightarrow> TlsSession outcome" where
  "tls_session_send_client_key_exchange p self key =
     tls_session_send_handshake_msg p self (client_key_exchange_msg key)"

definition certificate_verify_msg :: "bytes \<Rightarrow> Handshake" where
  "certificate_verify_msg signature =
     (let writer = put_data signature (length signature)
      in \<lparr>msg_type = SSL3_MT_CERTIFICATE_VERIFY, msg_length = of_nat (length writer),
          body = writer\<rparr>)"

definition tls_session_send_certificate_verify ::
  "platform \<Rightarrow> TlsSession \<Rightarrow> bytes \<Rightarrow> TlsSession outcome" where
  "tls_session_send_certificate_verify p self signature =
     tls_session_send_handshake_msg p self (certificate_verify_msg signature)"

text \<open>
  The result of \<open>tls_session_send\<close> is not looked at: the flush runs on the session as
  the send left it, whether it succeeded or not.
\<close>

definition tls_session_send_change_cipher_spec ::
  "platform \<Rightarrow> TlsSession \<Rightarrow> TlsSession outcome" where
  "tls_session_send_change_cipher_spec p self =
     (let writer = put_uint8 1;
          record = \<lparr>rec_type = SSL3_RT_CHANGE_CIPHER_SPEC, rec_version = 0,
                    rec_length = of_nat (length writer), fragment = writer\<rparr>
      in case tls_session_send p self record of
           Aborted \<Rightarrow> Aborted
         | Failed e self1 \<Rightarrow> tls_session_flush_content_buffer p self1
         | Ok self1 \<Rightarrow> tls_session_flush_content_buffer p self1)"

subsection \<open>Receive path: handshake messages\<close>

text \<open>The four cases of the switch of \<open>tls_session_receive_handshake\<close>, one definition each.\<close>

definition receive_server_hello :: "TlsSession \<Rightarrow> bytes \<Rightarrow> TlsSession outcome" where
  "receive_server_hello self reader =
     (if handshake_phase self \<noteq> CLIENT_HELLO_SENT then Aborted
      else case get_uint16_be reader of None \<Rightarrow> Aborted | Some (proto_ver, r1) \<Rightarrow>
           case dup_data RANDOM_SIZE r1 of None \<Rightarrow> Aborted | Some (random, r2) \<Rightarrow>
           case get_uint8 r2 of None \<Rightarrow> Aborted | Some (session_id_len, r3) \<Rightarrow>
           if \<not> unat session_id_len \<le> MAX_SESSION_ID_SIZE then Aborted
           else case dup_data (unat session_id_len) r3 of None \<Rightarrow> Aborted
             | Some (sid, r4) \<Rightarrow>
           case get_uint16_be r4 of None \<Rightarrow> Aborted | Some (cipher_suite, r5) \<Rightarrow>
           case get_uint8 r5 of None \<Rightarrow> Aborted | Some (compr_method, r6) \<Rightarrow>
           if cipher_suite \<noteq> TLS_ECDH_ECDSA_WITH_AES_256_GCM_SHA384 then Aborted
           else if compr_method \<noteq> 0x00 then Aborted
           else Ok (self\<lparr>server_random := random, session_id := sid,
                         pending_cs := cipher_suite,
                         handshake_phase := SUITE_HANDSHAKE\<rparr>))"

text \<open>The result of the skip of the two trailing bytes is not looked at.\<close>

definition receive_certificate_request :: "TlsSession \<Rightarrow> bytes \<Rightarrow> TlsSession outcome" where
  "receive_certificate_request self reader =
     (if handshake_phase self \<noteq> SUITE_HANDSHAKE then Aborted
      else if cert_request self \<noteq> 0 then Aborted
      else case get_uint8 reader of None \<Rightarrow> Aborted | Some (certs_num, r1) \<Rightarrow>
           if certs_num \<noteq> 1 then Aborted
           else case get_uint8 r1 of None \<Rightarrow> Aborted | Some (certificate_type, r2) \<Rightarrow>
           Ok (self\<lparr>cert_request := certificate_type\<rparr>))"

text \<open>
  The case \<open>SSL3_MT_SERVER_DONE\<close> in three stretches, in the order of the code: the
  messages Certificate, ClientKeyExchange and CertificateVerify; the master secret and
  the key block; ChangeCipherSpec, the keys and Finished.
\<close>

definition server_done_messages :: "platform \<Rightarrow> TlsSession \<Rightarrow> TlsSession outcome" where
  "server_done_messages p self =
     (case tls_session_send_certificate p self of
        Aborted \<Rightarrow> Aborted
      | Failed e s \<Rightarrow> Failed e s
      | Ok self1 \<Rightarrow>
          (let eph_pubkey = EVP_EC_gen_pub p in
           if length eph_pubkey = 0 then Aborted
           else
             (case tls_session_send_client_key_exchange p self1 eph_pubkey of
                Aborted \<Rightarrow> Aborted
              | Failed e s \<Rightarrow> Failed e s
              | Ok self2 \<Rightarrow>
                  (let hdata = handshake_buffer self2;
                       signature = EVP_DigestSign p (remote_key (pairing_data self2)) hdata
                   in tls_session_send_certificate_verify p self2 signature))))"

definition server_done_secrets ::
  "platform \<Rightarrow> TlsSession \<Rightarrow> (TlsSession \<times> bytes) outcome" where
  "server_done_secrets p self =
     (let premaster_secret = EVP_PKEY_derive p (remote_cert_pub_key (pairing_data self));
          rnd = put_data (client_random self) RANDOM_SIZE @
                put_data (server_random self) RANDOM_SIZE
      in case tls_prf p premaster_secret ''master secret'' rnd MASTER_SECRET_SIZE
                (hash_algo self) of
           None \<Rightarrow> Failed (Some FP_DEVICE_ERROR_GENERAL) self
         | Some ms \<Rightarrow>
             (let self1 = self\<lparr>master_secret := ms\<rparr>
              in case tls_prf p (master_secret self1) ''key expansion'' rnd MAX_KEY_BLOCK_SIZE
                        (hash_algo self1) of
                   None \<Rightarrow> Failed None self1
                 | Some key_block \<Rightarrow> Ok (self1, key_block)))"

definition server_done_finish ::
  "platform \<Rightarrow> TlsSession \<Rightarrow> bytes \<Rightarrow> TlsSession outcome" where
  "server_done_finish p self key_block =
     (case tls_session_send_change_cipher_spec p self of
        Aborted \<Rightarrow> Aborted
      | Failed e s \<Rightarrow> Failed e s
      | Ok self1 \<Rightarrow>
          (let self2 = self1\<lparr>encr_key := take 32 key_block,
                            decr_key := take 32 (drop 32 key_block),
                            encr_iv := take 4 (drop 64 key_block),
                            decr_iv := take 4 (drop 68 key_block),
                            client_cs := pending_cs self1\<rparr>;
               digest = tls_session_handshake_hash p self2
           in case tls_prf p (master_secret self2) ''client finished'' digest
                     VERIFY_DATA_SIZE (hash_algo self2) of
                None \<Rightarrow> Failed (Some FP_DEVICE_ERROR_GENERAL) self2
              | Some verify_data \<Rightarrow>
                  (case tls_session_send_finished p self2 verify_data of
                     Aborted \<Rightarrow> Aborted
                   | Failed e s \<Rightarrow> Failed e s
                   | Ok self3 \<Rightarrow> Ok (self3\<lparr>handshake_phase := SERVER_DONE\<rparr>))))"

definition receive_server_done :: "platform \<Rightarrow> TlsSession \<Rightarrow> TlsSession outcome" where
  "receive_server_done p self =
     (if handshake_phase self \<noteq> SUITE_HANDSHAKE then Aborted
      else if cert_request self \<noteq> ECDSA_SIGN then Aborted
      else
        (case server_done_messages p self of
           Aborted \<Rightarrow> Aborted
         | Failed e s \<Rightarrow> Failed e s
         | Ok self1 \<Rightarrow>
             (case server_done_secrets p self1 of
                Aborted \<Rightarrow> Aborted
              | Failed e s \<Rightarrow> Failed e s
              | Ok (self2, key_block) \<Rightarrow> server_done_finish p self2 key_block)))"

definition receive_finished :: "platform \<Rightarrow> TlsSession \<Rightarrow> bytes \<Rightarrow> TlsSession outcome" where
  "receive_finished p self reader =
     (if handshake_phase self \<noteq> SERVER_DONE then Aborted
      else if server_cs self \<noteq> client_cs self then Aborted
      else case dup_data 12 reader of None \<Rightarrow> Aborted | Some (remote_verify_data, r1) \<Rightarrow>
      let digest = tls_session_handshake_hash p self in
      case tls_prf p (master_secret self) ''server finished'' digest VERIFY_DATA_SIZE
             (hash_algo self) of
        None \<Rightarrow> Failed (Some FP_DEVICE_ERROR_GENERAL) self | Some verify_data \<Rightarrow>
      if take VERIFY_DATA_SIZE verify_data \<noteq> take VERIFY_DATA_SIZE remote_verify_data
      then Aborted
      else Ok (self\<lparr>handshake_phase := FINISHED\<rparr>))"

definition tls_session_receive_handshake ::
  "platform \<Rightarrow> TlsSession \<Rightarrow> Handshake \<Rightarrow> TlsSession outcome" where
  "tls_session_receive_handshake p self msg =
     (let self1 = (if msg_type msg \<noteq> SSL3_MT_FINISHED
                   then self\<lparr>handshake_buffer := handshake_buffer self @
                          put_uint8 (msg_type msg) @ put_uint24_be (msg_length msg) @
                          put_data (body msg) (unat (msg_length msg))\<rparr>
                   else self);
          reader = take (unat (msg_length msg)) (body msg)
      in if msg_type msg = SSL3_MT_SERVER_HELLO then receive_server_hello self1 reader
         else if msg_type msg = SSL3_MT_CERTIFICATE_REQUEST
           then receive_certificate_request self1 reader
         else if msg_type msg = SSL3_MT_SERVER_DONE then receive_server_done p self1
         else if msg_type msg = SSL3_MT_FINISHED then receive_finished p self1 reader
         else Ok self1)"

subsection \<open>Receive path: records\<close>

text \<open>
  What one pass of the loop body of \<open>tls_session_receive\<close> does with the bytes that
  remain in the fragment: \<open>Continue\<close> with the session and the rest of the reader
  (\<^verbatim>\<open>break\<close>), or \<open>Return\<close> from the function.
\<close>

datatype receive_step = Continue TlsSession bytes | Return "TlsSession outcome"

definition receive_change_cipher_spec :: "TlsSession \<Rightarrow> bytes \<Rightarrow> receive_step" where
  "receive_change_cipher_spec self reader =
     (case get_uint8 reader of
        None \<Rightarrow> Return Aborted
      | Some (dummy, r1) \<Rightarrow>
          if dummy \<noteq> 1 then Return Aborted
          else Continue (self\<lparr>server_cs := pending_cs self,
                              pending_cs := TLS_NULL_WITH_NULL_NULL\<rparr>) r1)"

definition receive_alert :: "platform \<Rightarrow> TlsSession \<Rightarrow> bytes \<Rightarrow> receive_step" where
  "receive_alert p self reader =
     (case get_uint8 reader of
        None \<Rightarrow> Return Aborted
      | Some (alert_level, r1) \<Rightarrow>
          (case get_uint8 r1 of
             None \<Rightarrow> Return Aborted
           | Some (alert_description, r2) \<Rightarrow>
               if alert_description = SSL3_AD_CLOSE_NOTIFY then
                 (if send_closed self then Return (Ok (self\<lparr>recv_closed := True\<rparr>))
                  else
                    (case tls_session_close p self of
                       Aborted \<Rightarrow> Return Aborted
                     | Failed e s \<Rightarrow> Return (Failed e s)
                     | Ok self1 \<Rightarrow> Return Aborted))
               else if alert_level = SSL3_AL_FATAL then
                 (case tls_session_close p self of
                    Aborted \<Rightarrow> Return Aborted
                  | Failed e s \<Rightarrow> Return (Failed e s)
                  | Ok self1 \<Rightarrow> Return Aborted)
               else Continue self r2))"

definition read_handshake :: "bytes \<Rightarrow> (Handshake \<times> bytes) option" where
  "read_handshake reader =
     (case get_uint8 reader of
        None \<Rightarrow> None
      | Some (t, r1) \<Rightarrow>
          (case get_uint24_be r1 of
             None \<Rightarrow> None
           | Some (len, r2) \<Rightarrow>
               (case dup_data (unat len) r2 of
                  None \<Rightarrow> None
                | Some (b, r3) \<Rightarrow> Some (\<lparr>msg_type = t, msg_length = len, body = b\<rparr>, r3))))"

definition receive_handshake_record :: "platform \<Rightarrow> TlsSession \<Rightarrow> bytes \<Rightarrow> receive_step" where
  "receive_handshake_record p self reader =
     (case read_handshake reader of
        None \<Rightarrow> Return Aborted
      | Some (msg, r1) \<Rightarrow>
          (case tls_session_receive_handshake p self msg of
             Aborted \<Rightarrow> Return Aborted
           | Failed e s \<Rightarrow> Return (Failed e s)
           | Ok self1 \<Rightarrow> Continue self1 r1))"

definition receive_application_data :: "TlsSession \<Rightarrow> bytes \<Rightarrow> receive_step" where
  "receive_application_data self reader =
     Continue (self\<lparr>application_data := application_data self @ reader\<rparr>) []"

definition receive_body :: "platform \<Rightarrow> TlsSession \<Rightarrow> byte \<Rightarrow> bytes \<Rightarrow> receive_step" where
  "receive_body p self type reader =
     (if type = SSL3_RT_CHANGE_CIPHER_SPEC then receive_change_cipher_spec self reader
      else if type = SSL3_RT_ALERT then receive_alert p self reader
      else if type = SSL3_RT_HANDSHAKE then receive_handshake_record p self reader
      else if type = SSL3_RT_APPLICATION_DATA then receive_application_data self reader
      else Return Aborted)"

lemma get_uint8_shorter: "get_uint8 r = Some (v, r') \<Longrightarrow> length r' < length r"
  by (auto simp: get_uint8_def split: list.splits)

lemma get_uint24_be_shorter: "get_uint24_be r = Some (v, r') \<Longrightarrow> length r' < length r"
  by (auto simp: get_uint24_be_def split: list.splits)

lemma dup_data_shorter: "dup_data n r = Some (v, r') \<Longrightarrow> length r' \<le> length r"
  by (auto simp: dup_data_def split: if_splits)

lemma read_handshake_shorter: "read_handshake r = Some (m, r') \<Longrightarrow> length r' < length r"
  by (fastforce simp: read_handshake_def split: option.splits
        dest: get_uint8_shorter get_uint24_be_shorter dup_data_shorter)

lemma receive_body_shorter:
  assumes "receive_body p self type reader = Continue self' reader'" and "reader \<noteq> []"
  shows "length reader' < length reader"
proof -
  have ccs: "receive_change_cipher_spec self reader = Continue self' reader'
      \<Longrightarrow> length reader' < length reader"
    by (auto simp: receive_change_cipher_spec_def split: option.splits if_splits
          dest: get_uint8_shorter)
  have alert: "receive_alert p self reader = Continue self' reader'
      \<Longrightarrow> length reader' < length reader"
    by (fastforce simp: receive_alert_def split: option.splits if_splits outcome.splits
          dest: get_uint8_shorter)
  have hs: "receive_handshake_record p self reader = Continue self' reader'
      \<Longrightarrow> length reader' < length reader"
    by (auto simp: receive_handshake_record_def split: option.splits outcome.splits
          dest: read_handshake_shorter)
  have app: "receive_application_data self reader = Continue self' reader'
      \<Longrightarrow> length reader' < length reader"
    using assms(2) by (auto simp: receive_application_data_def)
  from assms(1) ccs alert hs app show ?thesis
    by (auto simp: receive_body_def split: if_splits)
qed

text \<open>
  The while loop of \<open>tls_session_receive\<close> over the reader of the fragment; every
  pass that continues has consumed at least one byte.
\<close>

function tls_session_receive_loop ::
  "platform \<Rightarrow> TlsSession \<Rightarrow> byte \<Rightarrow> bytes \<Rightarrow> TlsSession outcome" where
  "tls_session_receive_loop p self type reader =
     (if reader = [] then Ok self
      else
        (case receive_body p self type reader of
           Return r \<Rightarrow> r
         | Continue self1 reader1 \<Rightarrow> tls_session_receive_loop p self1 type reader1))"
  by pat_completeness auto
termination
  by (relation "measure (\<lambda>(p, self, type, reader). length reader)")
     (auto dest: receive_body_shorter)

declare tls_session_receive_loop.simps [simp del]

definition tls_session_receive :: "platform \<Rightarrow> TlsSession \<Rightarrow> TlsRecord \<Rightarrow> TlsSession outcome" where
  "tls_session_receive p self record =
     tls_session_receive_loop p self (rec_type record)
       (take (unat (rec_length record)) (fragment record))"

text \<open>
  One record off the input of \<open>tls_session_receive_ciphertext\<close>: content type, version,
  length, fragment.
\<close>

definition read_record :: "bytes \<Rightarrow> ((byte \<times> 16 word \<times> bytes) \<times> bytes) option" where
  "read_record reader =
     (case get_uint8 reader of
        None \<Rightarrow> None
      | Some (content_type, r1) \<Rightarrow>
          (case get_uint16_be r1 of
             None \<Rightarrow> None
           | Some (ver, r2) \<Rightarrow>
               (case get_uint16_be r2 of
                  None \<Rightarrow> None
                | Some (cfrag_size, r3) \<Rightarrow>
                    (case dup_data (unat cfrag_size) r3 of
                       None \<Rightarrow> None
                     | Some (cfrag, r4) \<Rightarrow> Some ((content_type, ver, cfrag), r4)))))"

lemma get_uint16_be_shorter: "get_uint16_be r = Some (v, r') \<Longrightarrow> length r' < length r"
  by (auto simp: get_uint16_be_def split: list.splits)

lemma read_record_shorter: "read_record r = Some (x, r') \<Longrightarrow> length r' < length r"
  by (fastforce simp: read_record_def split: option.splits
        dest: get_uint8_shorter get_uint16_be_shorter dup_data_shorter)

text \<open>
  The result of \<open>tls_session_decrypt\<close> is not looked at by the code. When it fails (a
  read cipher suite other than the two known ones) the plaintext pointer and size are
  uninitialised; the model returns its failure there.
\<close>

function tls_session_receive_ciphertext_loop ::
  "platform \<Rightarrow> TlsSession \<Rightarrow> bytes \<Rightarrow> TlsSession outcome" where
  "tls_session_receive_ciphertext_loop p self reader =
     (if reader = [] then Ok self
      else
        (case read_record reader of
           None \<Rightarrow> Aborted
         | Some ((content_type, ver, cfrag), reader1) \<Rightarrow>
             if ver \<noteq> version self then Aborted
             else
               (case tls_session_decrypt p self content_type ver cfrag of
                  Aborted \<Rightarrow> Aborted
                | Failed e s \<Rightarrow> Failed e s
                | Ok (self1, pfrag) \<Rightarrow>
                    (case tls_session_receive p self1
                            \<lparr>rec_type = content_type, rec_version = version self1,
                             rec_length = of_nat (length pfrag), fragment = pfrag\<rparr> of
                       Aborted \<Rightarrow> Aborted
                     | Failed e s \<Rightarrow> Failed e s
                     | Ok self2 \<Rightarrow> tls_session_receive_ciphertext_loop p self2 reader1))))"
  by pat_completeness auto
termination
  by (relation "measure (\<lambda>(p, self, reader). length reader)")
     (auto dest: read_record_shorter)

declare tls_session_receive_ciphertext_loop.simps [simp del]

definition tls_session_receive_ciphertext ::
  "platform \<Rightarrow> TlsSession \<Rightarrow> bytes \<Rightarrow> TlsSession outcome" where
  "tls_session_receive_ciphertext p self data =
     (if recv_closed self then Aborted
      else tls_session_receive_ciphertext_loop p self data)"

subsection \<open>The remaining public functions\<close>

definition tls_session_establish :: "platform \<Rightarrow> TlsSession \<Rightarrow> TlsSession outcome" where
  "tls_session_establish p self =
     (if handshake_phase self \<noteq> HANDSHAKE_BEGIN then Aborted
      else
        (case tls_session_send_client_hello p self of
           Aborted \<Rightarrow> Aborted
         | Failed e s \<Rightarrow> Failed e s
         | Ok self1 \<Rightarrow> Ok (self1\<lparr>handshake_phase := CLIENT_HELLO_SENT\<rparr>)))"

text \<open>
  \<open>tls_session_new\<close>: \<^verbatim>\<open>g_new0\<close> zeroes the struct (null pointers are empty
  lists), then the 7-byte zeroed session id is set.
\<close>

definition tls_session_new :: TlsSession where
  "tls_session_new =
     \<lparr>send_closed = False, recv_closed = False,
      handshake_phase = HANDSHAKE_BEGIN, handshake_buffer = [],
      server_cs = 0, client_cs = 0, pending_cs = 0,
      master_secret = replicate MASTER_SECRET_SIZE 0,
      client_random = replicate RANDOM_SIZE 0,
      server_random = replicate RANDOM_SIZE 0,
      encr_seq_num = 0, decr_seq_num = 0,
      encr_key = [], decr_key = [], encr_iv = [], decr_iv = [],
      version = 0,
      session_id_size = 7, session_id = replicate 7 0,
      suites_size = 0, suites = [],
      send_buffer = [], content_buffer = [], content_buffer_type = 0,
      application_data = [],
      hash_algo = [],
      cert_request = 0,
      pairing_data = \<lparr>client_cert_raw = [], remote_cert_raw = [], remote_key = [],
                       remote_cert_pub_key = []\<rparr>,
      rand_pos = 0, content_buffer_owner = []\<rparr>"

text \<open>\<open>tls_session_init\<close> always returns TRUE; the model returns the session.\<close>

definition tls_session_init ::
  "platform \<Rightarrow> TlsSession \<Rightarrow> SensorPairingData \<Rightarrow> TlsSession" where
  "tls_session_init p self pd =
     (let (rnd, self1) = RAND_bytes p self RANDOM_SIZE
      in self1\<lparr>client_random := rnd,
               version := TLS1_2_VERSION,
               suites_size := 2,
               suites := put_uint16_be TLS_ECDH_ECDSA_WITH_AES_256_GCM_SHA384,
               hash_algo := SN_sha384,
               server_cs := TLS_NULL_WITH_NULL_NULL,
               client_cs := TLS_NULL_WITH_NULL_NULL,
               pending_cs := TLS_NULL_WITH_NULL_NULL,
               pairing_data := pd,
               handshake_buffer := [],
               send_buffer := [],
               content_buffer := [], content_buffer_owner := [],
               application_data := []\<rparr>)"

definition tls_session_send_application_data ::
  "platform \<Rightarrow> TlsSession \<Rightarrow> bytes \<Rightarrow> TlsSession outcome" where
  "tls_session_send_application_data p self data =
     (let record = \<lparr>rec_type = SSL3_RT_APPLICATION_DATA, rec_version = 0,
                    rec_length = of_nat (length data), fragment = data\<rparr>
      in tls_session_send p self record)"

definition tls_session_wrap ::
  "platform \<Rightarrow> TlsSession \<Rightarrow> bytes \<Rightarrow> (TlsSession \<times> bytes) outcome" where
  "tls_session_wrap p self pdata =
     (case tls_session_send_application_data p self pdata of
        Aborted \<Rightarrow> Aborted
      | Failed e s \<Rightarrow> Failed e s
      | Ok self1 \<Rightarrow> tls_session_flush_send_buffer p self1)"

definition tls_session_unwrap ::
  "platform \<Rightarrow> TlsSession \<Rightarrow> bytes \<Rightarrow> (TlsSession \<times> bytes) outcome" where
  "tls_session_unwrap p self cdata =
     (case tls_session_receive_ciphertext p self cdata of
        Aborted \<Rightarrow> Aborted
      | Failed e s \<Rightarrow> Failed e s
      | Ok self1 \<Rightarrow> Ok (self1\<lparr>application_data := []\<rparr>, application_data self1))"

subsection \<open>Sessions a caller can reach\<close>

text \<open>
  The session a call leaves behind for the caller: the one it returns, or the one it
  stopped in when it returned FALSE; none after a failed assertion.
\<close>

fun final_session :: "('a \<Rightarrow> TlsSession) \<Rightarrow> 'a outcome \<Rightarrow> TlsSession option" where
  "final_session f (Ok a) = Some (f a)"
| "final_session f (Failed e s) = Some s"
| "final_session f Aborted = None"

text \<open>
  The sessions reachable through the public functions of the file, starting from
  \<open>tls_session_new\<close> followed by \<open>tls_session_init\<close> (the constructor, called
  once), and including the session a caller is left with when a function returns FALSE.
  (\<open>tls_session_has_data\<close> changes nothing.)
\<close>

inductive reachable :: "platform \<Rightarrow> TlsSession \<Rightarrow> bool" for p :: platform where
  init: "reachable p (tls_session_init p tls_session_new pd)"
| establish:
    "reachable p s \<Longrightarrow> final_session (\<lambda>x. x) (tls_session_establish p s) = Some s'
      \<Longrightarrow> reachable p s'"
| receive_ciphertext:
    "reachable p s \<Longrightarrow> final_session (\<lambda>x. x) (tls_session_receive_ciphertext p s data) = Some s'
      \<Longrightarrow> reachable p s'"
| flush_send_buffer:
    "reachable p s \<Longrightarrow> final_session fst (tls_session_flush_send_buffer p s) = Some s'
      \<Longrightarrow> reachable p s'"
| wrap:
    "reachable p s \<Longrightarrow> final_session fst (tls_session_wrap p s pdata) = Some s'
      \<Longrightarrow> reachable p s'"
| unwrap:
    "reachable p s \<Longrightarrow> final_session fst (tls_session_unwrap p s cdata) = Some s'
      \<Longrightarrow> reachable p s'"
| close:
    "reachable p s \<Longrightarrow> final_session (\<lambda>x. x) (tls_session_close p s) = Some s'
      \<Longrightarrow> reachable p s'"

subsection \<open>Contracts of the crypto provider\<close>

text \<open>
  What the theorems below assume of OpenSSL, each where it is needed: AES-256-GCM returns
  a ciphertext as long as the plaintext and a 16-byte tag; the KDF returns as many bytes
  as asked for; the encoded public key of a P-256 key is the 65-byte uncompressed point;
  the Certificate message and every signature fit a record.
\<close>

definition gcm_sized :: "platform \<Rightarrow> bool" where
  "gcm_sized p \<longleftrightarrow>
     (\<forall>key iv aad pt.
        length (fst (EVP_aes_256_gcm_encrypt p key iv aad pt)) = length pt \<and>
        length (snd (EVP_aes_256_gcm_encrypt p key iv aad pt)) = 16)"

definition kdf_sized :: "platform \<Rightarrow> bool" where
  "kdf_sized p \<longleftrightarrow>
     (\<forall>algo secret label seed n out.
        EVP_KDF_derive p algo secret label seed n = Some out \<longrightarrow> length out = n)"

definition p256_point :: "platform \<Rightarrow> bool" where
  "p256_point p \<longleftrightarrow> length (EVP_EC_gen_pub p) = 65"

definition flight_fits :: "platform \<Rightarrow> bool" where
  "flight_fits p \<longleftrightarrow>
     CERTIFICATE_SIZE p + 12 < 2 ^ 16 \<and>
     (\<forall>key data. length (EVP_DigestSign p key data) + 4 < 2 ^ 16)"

subsection \<open>Invariant of the reachable sessions\<close>

text \<open>
  \<open>session_ok\<close> holds between any two calls of this file, also in the middle of a public
  function; \<open>session_inv\<close> adds what holds whenever a public function has returned,
  given that the ephemeral public key has the 65 bytes of a P-256 point.
\<close>

definition known_suite :: "16 word \<Rightarrow> bool" where
  "known_suite cs \<longleftrightarrow>
     cs = TLS_NULL_WITH_NULL_NULL \<or> cs = TLS_ECDH_ECDSA_WITH_AES_256_GCM_SHA384"

definition config_ok :: "TlsSession \<Rightarrow> bool" where
  "config_ok s \<longleftrightarrow>
     version s = TLS1_2_VERSION \<and> hash_algo s = SN_sha384 \<and>
     session_id_size s = 7 \<and> suites_size s = 2 \<and>
     suites s = put_uint16_be TLS_ECDH_ECDSA_WITH_AES_256_GCM_SHA384 \<and>
     length (client_random s) = RANDOM_SIZE \<and>
     (handshake_phase s = HANDSHAKE_BEGIN \<longrightarrow> session_id s = replicate 7 0) \<and>
     known_suite (client_cs s) \<and> known_suite (server_cs s) \<and> known_suite (pending_cs s)"

definition buffer_ok :: "TlsSession \<Rightarrow> bool" where
  "buffer_ok s \<longleftrightarrow>
     length (content_buffer_owner s) = length (content_buffer s) \<and>
     (\<forall>t \<in> set (content_buffer_owner s). t = content_buffer_type s) \<and>
     (content_buffer_type s = 0 \<longrightarrow> content_buffer s = [])"

definition session_ok :: "TlsSession \<Rightarrow> bool" where
  "session_ok s \<longleftrightarrow> config_ok s \<and> buffer_ok s"

definition session_inv :: "platform \<Rightarrow> TlsSession \<Rightarrow> bool" where
  "session_inv p s \<longleftrightarrow>
     session_ok s \<and>
     (p256_point p \<longrightarrow> content_buffer_type s \<noteq> 0 \<longrightarrow> content_buffer s \<noteq> [])"

text \<open>
  The fields that nothing on the send path writes (\<open>send_frame\<close>), and those that
  building and queueing a record leaves alone (\<open>record_frame\<close>).
\<close>

definition send_frame where
  "send_frame s =
     (recv_closed s, handshake_phase s, server_cs s, client_cs s, pending_cs s,
      master_secret s, client_random s, server_random s, decr_seq_num s,
      encr_key s, decr_key s, encr_iv s, decr_iv s, version s,
      session_id_size s, session_id s, suites_size s, suites s,
      application_data s, hash_algo s, cert_request s, pairing_data s)"

definition record_frame where
  "record_frame s = (send_frame s, send_closed s, handshake_buffer s)"

text \<open>
  \<open>post r Q F\<close>: if the call returned TRUE its result satisfies \<open>Q\<close>, if it returned
  FALSE the session it stopped in satisfies \<open>F\<close>.
\<close>

definition post :: "'a outcome \<Rightarrow> ('a \<Rightarrow> bool) \<Rightarrow> (TlsSession \<Rightarrow> bool) \<Rightarrow> bool" where
  "post r Q F = (case r of Ok a \<Rightarrow> Q a | Failed e s \<Rightarrow> F s | Aborted \<Rightarrow> True)"

subsection \<open>A concrete platform and session\<close>

text \<open>
  A stand-in provider with the sizes of the real one, and pairing data for a certificate
  size of 4, on which the functions can be evaluated.
\<close>

definition witness_platform :: platform where
  "witness_platform =
     \<lparr>CERTIFICATE_SIZE = 4,
      RAND_byte = (\<lambda>i. of_nat i),
      EVP_sha256 = (\<lambda>d. replicate 32 (of_nat (length d))),
      EVP_KDF_derive =
        (\<lambda>algo secret label seed n. Some (replicate n (of_nat (length label)))),
      EVP_aes_256_gcm_encrypt = (\<lambda>key iv aad pt. (map (\<lambda>b. b + 1) pt, replicate 16 0xAA)),
      EVP_aes_256_gcm_decrypt =
        (\<lambda>key iv aad ct tag.
           if tag = replicate 16 0xAA then Some (map (\<lambda>b. b - 1) ct) else None),
      EVP_EC_gen_pub = 4 # replicate 64 1,
      EVP_PKEY_derive = (\<lambda>peer. replicate 32 2),
      EVP_DigestSign = (\<lambda>key d. replicate 8 3)\<rparr>"

definition witness_pairing :: SensorPairingData where
  "witness_pairing =
     \<lparr>client_cert_raw = [9, 8, 7, 6], remote_cert_raw = [5, 4, 3, 2],
      remote_key = [1], remote_cert_pub_key = [2]\<rparr>"

definition witness_session :: TlsSession where
  "witness_session = tls_session_init witness_platform tls_session_new witness_pairing"

text \<open>
  A handshake on that platform: the record in which the server answers ClientHello
  (ServerHello, CertificateRequest, ServerHelloDone), and the sessions the client goes
  through up to the point where the server's Finished is due.
\<close>

definition witness_server_flight :: bytes where
  "witness_server_flight =
     [22, 3, 3, 0, 54] @
     ([2, 0, 0, 38, 3, 3] @ replicate 32 0x11 @ [0, 0xC0, 0x2E, 0]) @
     [13, 0, 0, 4, 1, 64, 0, 0] @
     [14, 0, 0, 0]"

definition witness_transcript :: bytes where
  "witness_transcript =
     handshake_msg_bytes (client_hello_msg witness_session) @
     drop 5 witness_server_flight @
     handshake_msg_bytes (certificate_msg witness_platform witness_session) @
     handshake_msg_bytes (client_key_exchange_msg (EVP_EC_gen_pub witness_platform)) @
     handshake_msg_bytes (certificate_verify_msg (replicate 8 3))"

definition witness_hello_sent :: TlsSession where
  "witness_hello_sent =
     witness_session
       \<lparr>handshake_phase := CLIENT_HELLO_SENT,
        handshake_buffer := handshake_msg_bytes (client_hello_msg witness_session),
        content_buffer := handshake_msg_bytes (client_hello_msg witness_session),
        content_buffer_type := 22,
        content_buffer_owner := replicate 65 22\<rparr>"

definition witness_hello_flushed :: TlsSession where
  "witness_hello_flushed =
     witness_hello_sent\<lparr>content_buffer := [], content_buffer_type := 0,
                         content_buffer_owner := []\<rparr>"

definition witness_server_done :: TlsSession where
  "witness_server_done =
     witness_session
       \<lparr>handshake_phase := SERVER_DONE, handshake_buffer := witness_transcript,
        server_cs := 0xC02E, client_cs := 0xC02E,
        master_secret := replicate 48 13, server_random := replicate 32 0x11,
        encr_seq_num := 1,
        encr_key := replicate 32 13, decr_key := replicate 32 13,
        encr_iv := replicate 4 13, decr_iv := replicate 4 13,
        session_id := [], cert_request := 64, rand_pos := 40\<rparr>"

definition witness_flight_sent :: TlsSession where
  "witness_flight_sent =
     witness_server_done
       \<lparr>server_cs := 0, pending_cs := 0xC02E, encr_seq_num := 0, rand_pos := 32,
        send_buffer :=
          [22, 3, 3, 0, 97] @
          handshake_msg_bytes (certificate_msg witness_platform witness_session) @
          handshake_msg_bytes (client_key_exchange_msg (EVP_EC_gen_pub witness_platform)) @
          handshake_msg_bytes (certificate_verify_msg (replicate 8 3)) @
          [20, 3, 3, 0, 1, 1],
        content_buffer := handshake_msg_bytes (finished_msg (replicate 12 15)),
        content_buffer_type := 22,
        content_buffer_owner := replicate 16 22\<rparr>"

definition witness_flight_flushed :: TlsSession where
  "witness_flight_flushed = witness_server_done\<lparr>server_cs := 0, pending_cs := 0xC02E\<rparr>"

definition witness_server_finished :: bytes where
  "witness_server_finished =
     [22, 3, 3, 0, 40] @ replicate 8 0 @
     map (\<lambda>b. b + 1) ([20, 0, 0, 12] @ replicate 12 15) @ replicate 16 0xAA"

definition witness_suite_handshake :: TlsSession where
  "witness_suite_handshake =
     witness_hello_flushed
       \<lparr>handshake_phase := SUITE_HANDSHAKE,
        handshake_buffer :=
          handshake_msg_bytes (client_hello_msg witness_session) @
          take 50 (drop 5 witness_server_flight),
        server_random := replicate 32 0x11, session_id := [],
        pending_cs := 0xC02E, cert_request := 64\<rparr>"

subsection \<open>The words of the specification\<close>

text \<open>
  The transcript the specification describes for a sequence of handshake messages: the
  bytes of every message in order, those of type Finished left out.
\<close>

definition transcript_bytes :: "Handshake list \<Rightarrow> bytes" where
  "transcript_bytes ms =
     concat (map handshake_msg_bytes (filter (\<lambda>m. msg_type m \<noteq> SSL3_MT_FINISHED) ms))"

text \<open>
  The ClientHello body as the specification words it: version, client random, the
  7-byte zeroed session id with its length, the cipher suite list with its length, no
  compression methods field at all, then the two extensions (type, length, data) with no
  length in front of the block.
\<close>

definition claimed_client_hello_body :: "16 word \<Rightarrow> bytes \<Rightarrow> bytes" where
  "claimed_client_hello_body ver random =
     put_uint16_be ver @ random @
     [7] @ replicate 7 0 @
     put_uint16_be 2 @ put_uint16_be 0xC02E @
     (put_uint16_be 0x000A @ put_uint16_be 4 @ put_uint16_be 2 @ put_uint16_be 0x0017) @
     (put_uint16_be 0x000B @ put_uint16_be 2 @ [1, 0x00])"

section \<open>Basic facts\<close>

lemma receive_loop_Nil: "tls_session_receive_loop p s t [] = Ok s"
  by (subst tls_session_receive_loop.simps) simp

lemma receive_loop_Cons:
  "tls_session_receive_loop p s t (b # bs) =
     (case receive_body p s t (b # bs) of
        Return r \<Rightarrow> r
      | Continue s1 r1 \<Rightarrow> tls_session_receive_loop p s1 t r1)"
  by (subst tls_session_receive_loop.simps) simp

lemma receive_ciphertext_loop_Nil: "tls_session_receive_ciphertext_loop p s [] = Ok s"
  by (subst tls_session_receive_ciphertext_loop.simps) simp

lemma receive_ciphertext_loop_Cons:
  "tls_session_receive_ciphertext_loop p self (b # bs) =
     (case read_record (b # bs) of
        None \<Rightarrow> Aborted
      | Some ((content_type, ver, cfrag), reader1) \<Rightarrow>
          if ver \<noteq> version self then Aborted
          else
            (case tls_session_decrypt p self content_type ver cfrag of
               Aborted \<Rightarrow> Aborted
             | Failed e s \<Rightarrow> Failed e s
             | Ok (self1, pfrag) \<Rightarrow>
                 (case tls_session_receive p self1
                         \<lparr>rec_type = content_type, rec_version = version self1,
                          rec_length = of_nat (length pfrag), fragment = pfrag\<rparr> of
                    Aborted \<Rightarrow> Aborted
                  | Failed e s \<Rightarrow> Failed e s
                  | Ok self2 \<Rightarrow> tls_session_receive_ciphertext_loop p self2 reader1)))"
  by (subst tls_session_receive_ciphertext_loop.simps) simp

lemmas const_defs =
  RANDOM_SIZE_def MASTER_SECRET_SIZE_def VERIFY_DATA_SIZE_def MAX_SESSION_ID_SIZE_def
  MAX_KEY_BLOCK_SIZE_def TLS_NULL_WITH_NULL_NULL_def TLS_ECDH_ECDSA_WITH_AES_256_GCM_SHA384_def
  ECDSA_SIGN_def TLS1_2_VERSION_def SSL3_RT_CHANGE_CIPHER_SPEC_def SSL3_RT_ALERT_def
  SSL3_RT_HANDSHAKE_def SSL3_RT_APPLICATION_DATA_def SSL3_MT_CLIENT_HELLO_def
  SSL3_MT_SERVER_HELLO_def SSL3_MT_CERTIFICATE_def SSL3_MT_CERTIFICATE_REQUEST_def
  SSL3_MT_SERVER_DONE_def SSL3_MT_CERTIFICATE_VERIFY_def SSL3_MT_CLIENT_KEY_EXCHANGE_def
  SSL3_MT_FINISHED_def SSL3_AL_WARNING_def SSL3_AL_FATAL_def SSL3_AD_CLOSE_NOTIFY_def
  SN_sha256_def SN_sha384_def

lemmas codec_defs =
  put_uint8_def put_uint16_be_def put_uint16_le_def put_uint24_be_def put_uint64_be_def
  put_data_def fill_def get_uint8_def get_uint16_be_def get_uint24_be_def dup_data_def

lemmas send_defs =
  tls_session_encrypt_def tls_session_flush_content_buffer_def tls_session_flush_send_buffer_def
  tls_session_send_def tls_session_send_alert_def tls_session_close_def handshake_msg_bytes_def
  tls_session_send_handshake_msg_def client_hello_body_def client_hello_msg_def
  tls_session_send_client_hello_def finished_msg_def tls_session_send_finished_def
  certificate_msg_def tls_session_send_certificate_def client_key_exchange_msg_def
  tls_session_send_client_key_exchange_def certificate_verify_msg_def
  tls_session_send_certificate_verify_def tls_session_send_change_cipher_spec_def
  tls_prf_def tls_session_handshake_hash_def

lemmas receive_defs =
  receive_server_hello_def receive_certificate_request_def server_done_messages_def
  server_done_secrets_def server_done_finish_def receive_server_done_def receive_finished_def
  tls_session_receive_handshake_def receive_change_cipher_spec_def receive_alert_def
  read_handshake_def receive_handshake_record_def receive_application_data_def
  receive_body_def tls_session_receive_def read_record_def tls_session_decrypt_def
  tls_session_receive_ciphertext_def tls_session_establish_def

lemmas witness_defs =
  witness_platform_def witness_pairing_def witness_session_def tls_session_init_def
  tls_session_new_def RAND_bytes_def

subsection \<open>Outcomes\<close>

lemma post_simps [simp]:
  "post (Ok a) Q F = Q a" "post (Failed e s) Q F = F s" "post Aborted Q F = True"
  by (simp_all add: post_def)

lemma post_weaken:
  "post r Q F \<Longrightarrow> (\<And>a. Q a \<Longrightarrow> Q' a) \<Longrightarrow> (\<And>s. F s \<Longrightarrow> F' s) \<Longrightarrow> post r Q' F'"
  by (cases r) auto

lemma post_if:
  "(c \<Longrightarrow> post a Q F) \<Longrightarrow> (\<not> c \<Longrightarrow> post b Q F) \<Longrightarrow> post (if c then a else b) Q F"
  by simp

lemma final_session_post:
  "post r (\<lambda>a. P (f a)) P \<Longrightarrow> final_session f r = Some s' \<Longrightarrow> P s'"
  by (cases r) auto

subsection \<open>Encodings\<close>

lemma put_uint16_TLS1_2:
  "put_uint16_le TLS1_2_VERSION = [0x03, 0x03]" "put_uint16_be TLS1_2_VERSION = [0x03, 0x03]"
  by (simp_all add: put_uint16_le_def put_uint16_be_def TLS1_2_VERSION_def)

lemma put_uint16_be_of_nat:
  fixes n :: nat
  assumes "n < 2 ^ 16"
  shows "put_uint16_be (of_nat n) = [of_nat (n div 256), of_nat (n mod 256)]"
proof -
  have a: "unat (of_nat n :: 16 word) = n" using assms by (simp add: unat_of_nat)
  have b: "unat (drop_bit 8 (of_nat n :: 16 word)) = n div 256"
    by (simp only: unat_drop_bit_eq a) (simp add: drop_bit_eq_div)
  have c: "(ucast w :: 8 word) = of_nat (unat w)" for w :: "16 word"
    by simp
  have hi: "(ucast (drop_bit 8 (of_nat n :: 16 word)) :: 8 word) = of_nat (n div 256)"
    by (simp only: c b)
  have "(of_nat n :: 8 word) = of_nat (n mod 256)"
    by (simp add: word_of_nat_eq_iff take_bit_eq_mod)
  then have lo: "(ucast (of_nat n :: 16 word) :: 8 word) = of_nat (n mod 256)"
    by (simp only: c a)
  show ?thesis unfolding put_uint16_be_def by (simp only: hi lo)
qed

lemma short_record_length:
  "length xs < 2 ^ 16 \<Longrightarrow> take (unat (of_nat (length xs) :: 16 word)) xs = xs"
  by (simp add: unat_of_nat)

lemma handshake_msg_bytes_le: "length (handshake_msg_bytes m) \<le> 4 + length (body m)"
  by (simp add: handshake_msg_bytes_def put_uint8_def put_uint24_be_def put_data_def)

lemma handshake_msg_bytes_nonempty:
  "length (handshake_msg_bytes m) < 2 ^ 16 \<Longrightarrow>
   take (unat (of_nat (length (handshake_msg_bytes m)) :: 16 word)) (handshake_msg_bytes m) \<noteq> []"
  by (simp add: short_record_length) (simp add: handshake_msg_bytes_def put_uint8_def)

lemma key_exchange_bytes_length:
  "length key = 65 \<Longrightarrow> length (handshake_msg_bytes (client_key_exchange_msg key)) = 69"
  by (simp add: handshake_msg_bytes_def client_key_exchange_msg_def put_uint8_def
        put_uint24_be_def put_data_def)

lemma finished_bytes_length:
  "length (handshake_msg_bytes (finished_msg vd)) \<le> 16"
  by (simp add: handshake_msg_bytes_def finished_msg_def put_uint8_def
        put_uint24_be_def put_data_def Let_def)

lemma certificate_bytes_length:
  assumes "flight_fits p"
  shows "length (handshake_msg_bytes (certificate_msg p s)) < 2 ^ 16"
proof -
  have "length (body (certificate_msg p s)) \<le> 8 + CERTIFICATE_SIZE p"
    by (simp add: certificate_msg_def Let_def put_uint24_be_def put_data_def fill_def)
  moreover have "CERTIFICATE_SIZE p + 12 < 2 ^ 16" using assms by (simp add: flight_fits_def)
  ultimately show ?thesis
    using handshake_msg_bytes_le [of "certificate_msg p s"] by simp
qed

lemma certificate_verify_bytes_length:
  assumes "flight_fits p"
  shows "length (handshake_msg_bytes (certificate_verify_msg (EVP_DigestSign p key d))) < 2 ^ 16"
proof -
  have "length (EVP_DigestSign p key d) + 4 < 2 ^ 16" using assms by (simp add: flight_fits_def)
  moreover have "length (body (certificate_verify_msg (EVP_DigestSign p key d)))
                   = length (EVP_DigestSign p key d)"
    by (simp add: certificate_verify_msg_def Let_def put_data_def)
  ultimately show ?thesis
    using handshake_msg_bytes_le [of "certificate_verify_msg (EVP_DigestSign p key d)"] by simp
qed

subsection \<open>What the send path leaves alone\<close>

lemma encrypt_frame:
  "post (tls_session_encrypt p s t pt)
     (\<lambda>(s', c). record_frame s' = record_frame s \<and> send_buffer s' = send_buffer s \<and>
        content_buffer s' = content_buffer s \<and>
        content_buffer_type s' = content_buffer_type s \<and>
        content_buffer_owner s' = content_buffer_owner s)
     (\<lambda>s'. s' = s)"
  by (simp add: tls_session_encrypt_def Let_def RAND_bytes_def record_frame_def send_frame_def
        split: prod.splits)

lemma encrypt_never_fails:
  "known_suite (client_cs s) \<Longrightarrow> \<exists>s' c. tls_session_encrypt p s t pt = Ok (s', c)"
  by (auto simp: tls_session_encrypt_def Let_def known_suite_def split: prod.splits)

lemma flush_content_buffer_frame:
  "post (tls_session_flush_content_buffer p s)
     (\<lambda>s'. record_frame s' = record_frame s)
     (\<lambda>s'. record_frame s' = record_frame s)"
proof -
  let ?s1 = "s\<lparr>content_buffer := [], content_buffer_owner := []\<rparr>"
  have f1: "record_frame ?s1 = record_frame s"
    by (simp add: record_frame_def send_frame_def)
  show ?thesis
    using encrypt_frame [of p ?s1 "content_buffer_type ?s1" "content_buffer s"] f1
    by (cases "tls_session_encrypt p ?s1 (content_buffer_type ?s1) (content_buffer s)")
       (auto simp: tls_session_flush_content_buffer_def Let_def record_frame_def send_frame_def)
qed

lemma send_pre_frame:
  "post (tls_session_send p s r)
     (\<lambda>s'. record_frame s' = record_frame s \<and> content_buffer_type s' = rec_type r)
     (\<lambda>s'. record_frame s' = record_frame s)"
proof -
  let ?m = "if content_buffer_type s \<noteq> 0 \<and> content_buffer_type s \<noteq> rec_type r
            then tls_session_flush_content_buffer p s else Ok s"
  have "post ?m (\<lambda>s'. record_frame s' = record_frame s) (\<lambda>s'. record_frame s' = record_frame s)"
    using flush_content_buffer_frame [of p s] by simp
  then show ?thesis
    by (cases ?m) (auto simp: tls_session_send_def Let_def record_frame_def send_frame_def)
qed

lemma send_alert_frame:
  "post (tls_session_send_alert p s level description)
     (\<lambda>s'. send_frame s' = send_frame s \<and> handshake_buffer s' = handshake_buffer s)
     (\<lambda>s'. send_frame s' = send_frame s \<and> handshake_buffer s' = handshake_buffer s)"
proof -
  let ?r = "\<lparr>rec_type = SSL3_RT_ALERT, rec_version = 0,
             rec_length = of_nat (length (put_uint8 level @ put_uint8 description)),
             fragment = put_uint8 level @ put_uint8 description\<rparr>"
  show ?thesis
    using send_pre_frame [of p s ?r]
    by (cases "tls_session_send p s ?r")
       (auto simp: tls_session_send_alert_def Let_def record_frame_def send_frame_def)
qed

lemma send_handshake_msg_frame:
  "post (tls_session_send_handshake_msg p s m)
     (\<lambda>s'. send_frame s' = send_frame s \<and> send_closed s' = send_closed s \<and>
        handshake_buffer s' = handshake_buffer s @
          (if msg_type m \<noteq> SSL3_MT_FINISHED
           then take (unat (of_nat (length (handshake_msg_bytes m)) :: 16 word))
                  (handshake_msg_bytes m)
           else []))
     (\<lambda>s'. send_frame s' = send_frame s \<and> send_closed s' = send_closed s)"
proof -
  let ?r = "\<lparr>rec_type = SSL3_RT_HANDSHAKE, rec_version = TLS1_2_VERSION,
             rec_length = of_nat (length (handshake_msg_bytes m)),
             fragment = handshake_msg_bytes m\<rparr>"
  let ?s1 = "if msg_type m \<noteq> SSL3_MT_FINISHED
             then s\<lparr>handshake_buffer := handshake_buffer s @
                    put_data (fragment ?r) (unat (rec_length ?r))\<rparr>
             else s"
  have eq: "tls_session_send_handshake_msg p s m = tls_session_send p ?s1 ?r"
    by (simp add: tls_session_send_handshake_msg_def Let_def)
  show ?thesis
    unfolding eq
    using send_pre_frame [of p ?s1 ?r]
    by (cases "tls_session_send p ?s1 ?r")
       (auto simp: record_frame_def send_frame_def put_data_def)
qed

lemma change_cipher_spec_frame:
  "post (tls_session_send_change_cipher_spec p s)
     (\<lambda>s'. record_frame s' = record_frame s)
     (\<lambda>s'. record_frame s' = record_frame s)"
proof -
  let ?r = "\<lparr>rec_type = SSL3_RT_CHANGE_CIPHER_SPEC, rec_version = 0,
             rec_length = of_nat (length (put_uint8 1)), fragment = put_uint8 1\<rparr>"
  have a: "\<And>s1. record_frame s1 = record_frame s \<Longrightarrow>
      post (tls_session_flush_content_buffer p s1)
        (\<lambda>s'. record_frame s' = record_frame s) (\<lambda>s'. record_frame s' = record_frame s)"
    using flush_content_buffer_frame post_weaken by (metis (mono_tags, lifting))
  show ?thesis
    using send_pre_frame [of p s ?r] a
    by (cases "tls_session_send p s ?r")
       (auto simp: tls_session_send_change_cipher_spec_def Let_def)
qed

lemma server_done_messages_frame:
  assumes "server_done_messages p s = Ok s'"
  shows "send_frame s' = send_frame s"
proof -
  let ?key = "EVP_EC_gen_pub p"
  from assms obtain s1 s2 where
    c1: "tls_session_send_handshake_msg p s (certificate_msg p s) = Ok s1" and
    c2: "tls_session_send_handshake_msg p s1 (client_key_exchange_msg ?key) = Ok s2" and
    c3: "tls_session_send_handshake_msg p s2
           (certificate_verify_msg
              (EVP_DigestSign p (remote_key (pairing_data s2)) (handshake_buffer s2))) = Ok s'"
    by (auto simp: server_done_messages_def Let_def tls_session_send_certificate_def
          tls_session_send_client_key_exchange_def tls_session_send_certificate_verify_def
        split: outcome.splits if_splits)
  from send_handshake_msg_frame [of p s "certificate_msg p s"] c1
  have f1: "send_frame s1 = send_frame s" by simp
  from send_handshake_msg_frame [of p s1 "client_key_exchange_msg ?key"] c2
  have f2: "send_frame s2 = send_frame s1" by simp
  from send_handshake_msg_frame [of p s2 "certificate_verify_msg
      (EVP_DigestSign p (remote_key (pairing_data s2)) (handshake_buffer s2))"] c3
  have f3: "send_frame s' = send_frame s2" by simp
  show ?thesis using f1 f2 f3 by simp
qed

subsection \<open>The invariant along the send path\<close>

lemma config_ok_frame: "send_frame s' = send_frame s \<Longrightarrow> config_ok s' = config_ok s"
  by (simp add: send_frame_def config_ok_def)

lemma session_inv_ok: "session_inv p s \<Longrightarrow> session_ok s"
  by (simp add: session_inv_def)

lemma session_ok_frame:
  assumes "session_ok s" and "send_frame s' = send_frame s"
    and "content_buffer s' = content_buffer s"
    and "content_buffer_type s' = content_buffer_type s"
    and "content_buffer_owner s' = content_buffer_owner s"
  shows "session_ok s'"
  using assms config_ok_frame [OF assms(2)] by (simp add: session_ok_def buffer_ok_def)

lemma session_inv_frame:
  assumes "session_inv p s" and "send_frame s' = send_frame s"
    and "content_buffer s' = content_buffer s"
    and "content_buffer_type s' = content_buffer_type s"
    and "content_buffer_owner s' = content_buffer_owner s"
  shows "session_inv p s'"
  using assms session_ok_frame [of s s'] by (simp add: session_inv_def)

lemma session_ok_updates [simp]:
  "session_ok (s\<lparr>handshake_buffer := hb\<rparr>) = session_ok s"
  "session_ok (s\<lparr>master_secret := ms\<rparr>) = session_ok s"
  "session_ok (s\<lparr>cert_request := cr\<rparr>) = session_ok s"
  "session_ok (s\<lparr>application_data := ad\<rparr>) = session_ok s"
  "session_ok (s\<lparr>decr_seq_num := dn\<rparr>) = session_ok s"
  "session_ok (s\<lparr>recv_closed := rc\<rparr>) = session_ok s"
  "session_ok (s\<lparr>send_closed := sc\<rparr>) = session_ok s"
  "session_ok (s\<lparr>send_buffer := sb\<rparr>) = session_ok s"
  "session_ok (s\<lparr>server_random := sr\<rparr>) = session_ok s"
  "session_ok (s\<lparr>encr_key := k1\<rparr>) = session_ok s"
  "session_ok (s\<lparr>decr_key := k2\<rparr>) = session_ok s"
  "session_ok (s\<lparr>encr_iv := i1\<rparr>) = session_ok s"
  "session_ok (s\<lparr>decr_iv := i2\<rparr>) = session_ok s"
  by (simp_all add: session_ok_def config_ok_def buffer_ok_def)

lemma session_inv_updates [simp]:
  "session_inv p (s\<lparr>handshake_buffer := hb\<rparr>) = session_inv p s"
  "session_inv p (s\<lparr>master_secret := ms\<rparr>) = session_inv p s"
  "session_inv p (s\<lparr>cert_request := cr\<rparr>) = session_inv p s"
  "session_inv p (s\<lparr>application_data := ad\<rparr>) = session_inv p s"
  "session_inv p (s\<lparr>decr_seq_num := dn\<rparr>) = session_inv p s"
  "session_inv p (s\<lparr>recv_closed := rc\<rparr>) = session_inv p s"
  "session_inv p (s\<lparr>send_closed := sc\<rparr>) = session_inv p s"
  "session_inv p (s\<lparr>send_buffer := sb\<rparr>) = session_inv p s"
  by (simp_all add: session_inv_def)

lemma flush_content_buffer_ok:
  assumes "session_ok s"
  shows "\<exists>s'. tls_session_flush_content_buffer p s = Ok s' \<and> session_ok s' \<and>
           content_buffer s' = [] \<and> content_buffer_type s' = 0 \<and>
           record_frame s' = record_frame s"
proof (cases "content_buffer_type s = 0")
  case True
  with assms show ?thesis
    by (simp add: tls_session_flush_content_buffer_def session_ok_def buffer_ok_def)
next
  case False
  let ?s1 = "s\<lparr>content_buffer := [], content_buffer_owner := []\<rparr>"
  have "known_suite (client_cs ?s1)" using assms by (simp add: session_ok_def config_ok_def)
  then obtain s2 c where enc: "tls_session_encrypt p ?s1 (content_buffer_type ?s1) (content_buffer s) = Ok (s2, c)"
    using encrypt_never_fails by blast
  from encrypt_frame [of p ?s1 "content_buffer_type ?s1" "content_buffer s"] enc
  have fr: "record_frame s2 = record_frame ?s1" "content_buffer s2 = []"
    "content_buffer_owner s2 = []"
    by simp_all
  have fr1: "record_frame ?s1 = record_frame s"
    by (simp add: record_frame_def send_frame_def)
  let ?s3 = "s2\<lparr>send_buffer := send_buffer s2 @ c, content_buffer_type := 0\<rparr>"
  have res: "tls_session_flush_content_buffer p s = Ok ?s3"
    using False enc by (simp add: tls_session_flush_content_buffer_def Let_def)
  have fr3: "record_frame ?s3 = record_frame s"
    using fr(1) fr1 by (simp add: record_frame_def send_frame_def)
  then have "send_frame ?s3 = send_frame s" by (simp add: record_frame_def)
  then have "config_ok ?s3" using assms config_ok_frame session_ok_def by blast
  moreover have "buffer_ok ?s3" using fr by (simp add: buffer_ok_def)
  ultimately show ?thesis using res fr fr3 by (simp add: session_ok_def)
qed

lemma send_ok:
  assumes "session_ok s" and "rec_type r \<noteq> 0"
  shows "post (tls_session_send p s r)
     (\<lambda>s'. session_ok s' \<and> record_frame s' = record_frame s \<and>
        content_buffer_type s' = rec_type r \<and>
        content_buffer s' =
          (if content_buffer_type s = rec_type r then content_buffer s else []) @
          take (unat (rec_length r)) (fragment r))
     (\<lambda>s'. False)"
proof (cases "send_closed s")
  case True
  then show ?thesis by (simp add: tls_session_send_def)
next
  case False
  let ?m = "if content_buffer_type s \<noteq> 0 \<and> content_buffer_type s \<noteq> rec_type r
            then tls_session_flush_content_buffer p s else Ok s"
  have "\<exists>s1. ?m = Ok s1 \<and> session_ok s1 \<and> record_frame s1 = record_frame s \<and>
          content_buffer s1 = (if content_buffer_type s = rec_type r then content_buffer s else []) \<and>
          (content_buffer_type s1 = 0 \<or> content_buffer_type s1 = rec_type r)"
  proof (cases "content_buffer_type s \<noteq> 0 \<and> content_buffer_type s \<noteq> rec_type r")
    case True
    then show ?thesis using flush_content_buffer_ok [OF assms(1), of p] by auto
  next
    case False
    then show ?thesis using assms(1) by (auto simp: session_ok_def buffer_ok_def)
  qed
  then obtain s1 where m: "?m = Ok s1" and ok1: "session_ok s1"
    and fr1: "record_frame s1 = record_frame s"
    and cb1: "content_buffer s1 = (if content_buffer_type s = rec_type r then content_buffer s else [])"
    and ty1: "content_buffer_type s1 = 0 \<or> content_buffer_type s1 = rec_type r"
    by blast
  let ?data = "put_data (fragment r) (unat (rec_length r))"
  let ?s2 = "s1\<lparr>content_buffer := content_buffer s1 @ ?data,
                 content_buffer_owner := content_buffer_owner s1 @ replicate (length ?data) (rec_type r),
                 content_buffer_type := rec_type r\<rparr>"
  have res: "tls_session_send p s r = Ok ?s2"
    using False m by (simp add: tls_session_send_def Let_def)
  have fr2: "record_frame ?s2 = record_frame s"
    using fr1 by (simp add: record_frame_def send_frame_def)
  then have "send_frame ?s2 = send_frame s" by (simp add: record_frame_def)
  then have "config_ok ?s2" using assms(1) config_ok_frame session_ok_def by blast
  moreover have "buffer_ok ?s2"
    using ok1 ty1 assms(2) by (auto simp: session_ok_def buffer_ok_def)
  ultimately show ?thesis using res fr2 cb1
    by (simp add: session_ok_def put_data_def)
qed

lemma send_alert_ok:
  assumes "session_ok s"
  shows "post (tls_session_send_alert p s level description)
     (\<lambda>s'. session_inv q s' \<and> send_frame s' = send_frame s)
     (\<lambda>s'. False)"
proof -
  let ?r = "\<lparr>rec_type = SSL3_RT_ALERT, rec_version = 0,
             rec_length = of_nat (length (put_uint8 level @ put_uint8 description)),
             fragment = put_uint8 level @ put_uint8 description\<rparr>"
  have ty: "rec_type ?r \<noteq> 0" by (simp add: SSL3_RT_ALERT_def)
  show ?thesis
  proof (cases "tls_session_send p s ?r")
    case (Ok s1)
    with send_ok [OF assms ty, of p]
    have ok1: "session_ok s1" and fr: "record_frame s1 = record_frame s"
      and ne: "content_buffer s1 \<noteq> []"
      by (simp_all add: put_uint8_def)
    let ?s2 = "if level = SSL3_AL_WARNING then s1\<lparr>send_closed := True\<rparr> else s1"
    have "session_ok ?s2"
      using ok1 by (auto intro: session_ok_frame [of s1] simp: send_frame_def)
    moreover have "content_buffer ?s2 \<noteq> []" using ne by simp
    moreover have "send_frame ?s2 = send_frame s"
      using fr by (simp add: record_frame_def send_frame_def)
    ultimately show ?thesis using Ok
      by (simp add: tls_session_send_alert_def Let_def session_inv_def)
  next
    case (Failed e s1)
    with send_ok [OF assms ty, of p] show ?thesis by simp
  next
    case Aborted
    then show ?thesis by (simp add: tls_session_send_alert_def Let_def)
  qed
qed

lemma close_ok:
  assumes "session_inv q s"
  shows "post (tls_session_close p s) (session_inv q) (session_inv q)"
proof (cases "send_closed s")
  case True
  then show ?thesis using assms by (simp add: tls_session_close_def)
next
  case False
  have ok: "session_ok s" using assms by (rule session_inv_ok)
  show ?thesis
  proof (cases "tls_session_send_alert p s SSL3_AL_WARNING SSL3_AD_CLOSE_NOTIFY")
    case (Ok s1)
    with send_alert_ok [OF ok, of p SSL3_AL_WARNING SSL3_AD_CLOSE_NOTIFY q]
    have "session_inv q s1" by simp
    then have "session_inv q (s1\<lparr>send_closed := True\<rparr>)"
      by (rule session_inv_frame) (simp_all add: send_frame_def)
    then show ?thesis using Ok False by (simp add: tls_session_close_def)
  next
    case (Failed e s1)
    with send_alert_ok [OF ok, of p SSL3_AL_WARNING SSL3_AD_CLOSE_NOTIFY q]
    show ?thesis by simp
  next
    case Aborted
    then show ?thesis using False by (simp add: tls_session_close_def)
  qed
qed

lemma send_handshake_msg_ok:
  assumes "session_ok s"
  shows "post (tls_session_send_handshake_msg p s m)
     (\<lambda>s'. session_ok s' \<and> content_buffer_type s' = SSL3_RT_HANDSHAKE \<and>
        content_buffer s' =
          (if content_buffer_type s = SSL3_RT_HANDSHAKE then content_buffer s else []) @
          take (unat (of_nat (length (handshake_msg_bytes m)) :: 16 word))
            (handshake_msg_bytes m))
     (\<lambda>s'. False)"
proof -
  let ?r = "\<lparr>rec_type = SSL3_RT_HANDSHAKE, rec_version = TLS1_2_VERSION,
             rec_length = of_nat (length (handshake_msg_bytes m)),
             fragment = handshake_msg_bytes m\<rparr>"
  let ?s1 = "if msg_type m \<noteq> SSL3_MT_FINISHED
             then s\<lparr>handshake_buffer := handshake_buffer s @
                    put_data (fragment ?r) (unat (rec_length ?r))\<rparr>
             else s"
  have eq: "tls_session_send_handshake_msg p s m = tls_session_send p ?s1 ?r"
    by (simp add: tls_session_send_handshake_msg_def Let_def)
  have ok1: "session_ok ?s1"
    using assms by (auto intro: session_ok_frame [of s] simp: send_frame_def)
  have ty: "rec_type ?r \<noteq> 0" by (simp add: SSL3_RT_HANDSHAKE_def)
  show ?thesis
    unfolding eq
    using send_ok [OF ok1 ty, of p]
    by (cases "tls_session_send p ?s1 ?r") auto
qed

lemma change_cipher_spec_ok:
  assumes "session_ok s"
  shows "post (tls_session_send_change_cipher_spec p s)
     (\<lambda>s'. session_ok s' \<and> content_buffer s' = [] \<and> content_buffer_type s' = 0 \<and>
            record_frame s' = record_frame s)
     (\<lambda>s'. False)"
proof -
  let ?r = "\<lparr>rec_type = SSL3_RT_CHANGE_CIPHER_SPEC, rec_version = 0,
             rec_length = of_nat (length (put_uint8 1)), fragment = put_uint8 1\<rparr>"
  have ty: "rec_type ?r \<noteq> 0" by (simp add: SSL3_RT_CHANGE_CIPHER_SPEC_def)
  show ?thesis
  proof (cases "tls_session_send p s ?r")
    case (Ok s1)
    with send_ok [OF assms ty, of p]
    have ok1: "session_ok s1" and fr1: "record_frame s1 = record_frame s" by simp_all
    from flush_content_buffer_ok [OF ok1, of p] fr1 Ok show ?thesis
      by (auto simp: tls_session_send_change_cipher_spec_def Let_def)
  next
    case (Failed e s1)
    with send_ok [OF assms ty, of p] show ?thesis by simp
  next
    case Aborted
    then show ?thesis by (simp add: tls_session_send_change_cipher_spec_def Let_def)
  qed
qed

subsection \<open>The invariant along the receive path\<close>

lemma server_done_messages_ok:
  assumes "session_ok s"
  shows "post (server_done_messages p s)
     (\<lambda>s'. session_inv p s' \<and> send_frame s' = send_frame s)
     (\<lambda>s'. False)"
proof (cases "tls_session_send_certificate p s")
  case (Ok s1)
  from Ok send_handshake_msg_ok [OF assms, of p "certificate_msg p s"]
  have ok1: "session_ok s1" and ty1: "content_buffer_type s1 = SSL3_RT_HANDSHAKE"
    by (simp_all add: tls_session_send_certificate_def)
  from Ok send_handshake_msg_frame [of p s "certificate_msg p s"]
  have fr1: "send_frame s1 = send_frame s"
    by (simp add: tls_session_send_certificate_def)
  show ?thesis
  proof (cases "length (EVP_EC_gen_pub p) = 0")
    case True
    then show ?thesis using Ok by (simp add: server_done_messages_def Let_def)
  next
    case False
    let ?key = "EVP_EC_gen_pub p"
    show ?thesis
    proof (cases "tls_session_send_client_key_exchange p s1 ?key")
      case (Ok s2)
      note Ok2 = this
      from Ok2 send_handshake_msg_ok [OF ok1, of p "client_key_exchange_msg ?key"] ty1
      have ok2: "session_ok s2" and ty2: "content_buffer_type s2 = SSL3_RT_HANDSHAKE"
        and cb2: "content_buffer s2 = content_buffer s1 @
            take (unat (of_nat (length (handshake_msg_bytes (client_key_exchange_msg ?key))) :: 16 word))
              (handshake_msg_bytes (client_key_exchange_msg ?key))"
        by (simp_all add: tls_session_send_client_key_exchange_def)
      from Ok2 send_handshake_msg_frame [of p s1 "client_key_exchange_msg ?key"]
      have fr2: "send_frame s2 = send_frame s1"
        by (simp add: tls_session_send_client_key_exchange_def)
      have ne2: "p256_point p \<Longrightarrow> content_buffer s2 \<noteq> []"
        using cb2 handshake_msg_bytes_nonempty [of "client_key_exchange_msg ?key"]
          key_exchange_bytes_length [of ?key]
        by (simp add: p256_point_def)
      let ?sig = "EVP_DigestSign p (remote_key (pairing_data s2)) (handshake_buffer s2)"
      show ?thesis
      proof (cases "tls_session_send_certificate_verify p s2 ?sig")
        case (Ok s3)
        from Ok send_handshake_msg_ok [OF ok2, of p "certificate_verify_msg ?sig"] ty2
        have ok3: "session_ok s3"
          and cb3: "content_buffer s3 = content_buffer s2 @
            take (unat (of_nat (length (handshake_msg_bytes (certificate_verify_msg ?sig))) :: 16 word))
              (handshake_msg_bytes (certificate_verify_msg ?sig))"
          by (simp_all add: tls_session_send_certificate_verify_def)
        from Ok send_handshake_msg_frame [of p s2 "certificate_verify_msg ?sig"]
        have fr3: "send_frame s3 = send_frame s2"
          by (simp add: tls_session_send_certificate_verify_def)
        have "session_inv p s3" using ok3 cb3 ne2 by (simp add: session_inv_def)
        then show ?thesis using \<open>tls_session_send_certificate p s = Ok s1\<close> False Ok2 Ok fr1 fr2 fr3
          by (simp add: server_done_messages_def Let_def)
      next
        case (Failed e s3)
        with send_handshake_msg_ok [OF ok2, of p "certificate_verify_msg ?sig"]
        show ?thesis by (simp add: tls_session_send_certificate_verify_def)
      next
        case Aborted
        then show ?thesis using \<open>tls_session_send_certificate p s = Ok s1\<close> False Ok2
          by (simp add: server_done_messages_def Let_def)
      qed
    next
      case (Failed e s2)
      with send_handshake_msg_ok [OF ok1, of p "client_key_exchange_msg ?key"]
      show ?thesis by (simp add: tls_session_send_client_key_exchange_def)
    next
      case Aborted
      then show ?thesis using Ok False by (simp add: server_done_messages_def Let_def)
    qed
  qed
next
  case (Failed e s1)
  with send_handshake_msg_ok [OF assms, of p "certificate_msg p s"]
  show ?thesis by (simp add: tls_session_send_certificate_def)
next
  case Aborted
  then show ?thesis by (simp add: server_done_messages_def)
qed

lemma server_done_secrets_ok:
  assumes "session_inv q s"
  shows "post (server_done_secrets p s) (\<lambda>(s', kb). session_inv q s') (session_inv q)"
  using assms
  by (simp add: server_done_secrets_def Let_def split: option.splits)

lemma server_done_finish_ok:
  assumes "session_ok s"
  shows "post (server_done_finish p s kb) (session_inv q) (session_inv q)"
proof (cases "tls_session_send_change_cipher_spec p s")
  case (Ok s1)
  with change_cipher_spec_ok [OF assms, of p]
  have ok1: "session_ok s1" and cb1: "content_buffer s1 = []"
    and ty1: "content_buffer_type s1 = 0"
    by simp_all
  let ?s2 = "s1\<lparr>encr_key := take 32 kb, decr_key := take 32 (drop 32 kb),
                 encr_iv := take 4 (drop 64 kb), decr_iv := take 4 (drop 68 kb),
                 client_cs := pending_cs s1\<rparr>"
  have ok2: "session_ok ?s2"
    using ok1 by (simp add: session_ok_def config_ok_def buffer_ok_def)
  have inv2: "session_inv q ?s2"
    using ok2 ty1 by (simp add: session_inv_def)
  show ?thesis
  proof (cases "tls_prf p (master_secret ?s2) ''client finished''
                  (tls_session_handshake_hash p ?s2) VERIFY_DATA_SIZE (hash_algo ?s2)")
    case None
    then show ?thesis using Ok inv2 by (simp add: server_done_finish_def Let_def)
  next
    case (Some vd)
    show ?thesis
    proof (cases "tls_session_send_finished p ?s2 vd")
      case (Ok s3)
      note Ok3 = this
      from Ok3 send_handshake_msg_ok [OF ok2, of p "finished_msg vd"]
      have ok3: "session_ok s3"
        and cb3: "content_buffer s3 =
            (if content_buffer_type ?s2 = SSL3_RT_HANDSHAKE then content_buffer ?s2 else []) @
            take (unat (of_nat (length (handshake_msg_bytes (finished_msg vd))) :: 16 word))
              (handshake_msg_bytes (finished_msg vd))"
        by (simp_all add: tls_session_send_finished_def)
      have "length (handshake_msg_bytes (finished_msg vd)) < 2 ^ 16"
        using finished_bytes_length [of vd] by simp
      then have ne3: "content_buffer s3 \<noteq> []"
        using cb3 handshake_msg_bytes_nonempty [of "finished_msg vd"] by simp
      have "session_ok (s3\<lparr>handshake_phase := SERVER_DONE\<rparr>)"
        using ok3 by (simp add: session_ok_def config_ok_def buffer_ok_def)
      then have "session_inv q (s3\<lparr>handshake_phase := SERVER_DONE\<rparr>)"
        using ne3 by (simp add: session_inv_def)
      then show ?thesis
        using \<open>tls_session_send_change_cipher_spec p s = Ok s1\<close> Some Ok3
        by (simp add: server_done_finish_def Let_def)
    next
      case (Failed e s3)
      with send_handshake_msg_ok [OF ok2, of p "finished_msg vd"]
      show ?thesis by (simp add: tls_session_send_finished_def)
    next
      case Aborted
      then show ?thesis using Ok Some by (simp add: server_done_finish_def Let_def)
    qed
  qed
next
  case (Failed e s1)
  with change_cipher_spec_ok [OF assms, of p] show ?thesis by simp
next
  case Aborted
  then show ?thesis by (simp add: server_done_finish_def)
qed

lemma receive_server_done_ok:
  assumes "session_ok s"
  shows "post (receive_server_done p s) (session_inv p) (session_inv p)"
proof (cases "server_done_messages p s")
  case (Ok s1)
  with server_done_messages_ok [OF assms, of p] have inv1: "session_inv p s1" by simp
  show ?thesis
  proof (cases "server_done_secrets p s1")
    case (Ok a)
    obtain s2 kb where a: "a = (s2, kb)" by (cases a)
    with Ok server_done_secrets_ok [OF inv1, of p] have "session_inv p s2" by simp
    then have "session_ok s2" by (rule session_inv_ok)
    from server_done_finish_ok [OF this, of p kb p] Ok a \<open>server_done_messages p s = Ok s1\<close>
    show ?thesis by (simp add: receive_server_done_def)
  next
    case (Failed e s2)
    with server_done_secrets_ok [OF inv1, of p] \<open>server_done_messages p s = Ok s1\<close>
    show ?thesis by (simp add: receive_server_done_def)
  next
    case Aborted
    then show ?thesis using Ok by (simp add: receive_server_done_def)
  qed
next
  case (Failed e s1)
  with server_done_messages_ok [OF assms, of p] show ?thesis by simp
next
  case Aborted
  then show ?thesis by (simp add: receive_server_done_def)
qed

lemma receive_server_hello_ok:
  assumes "session_inv q s"
  shows "post (receive_server_hello s r) (session_inv q) (session_inv q)"
  using assms
  by (auto simp: receive_server_hello_def session_inv_def session_ok_def config_ok_def
        buffer_ok_def known_suite_def
      split: option.splits)

lemma receive_certificate_request_ok:
  assumes "session_inv q s"
  shows "post (receive_certificate_request s r) (session_inv q) (session_inv q)"
  using assms
  by (auto simp: receive_certificate_request_def split: option.splits)

lemma receive_finished_ok:
  assumes "session_inv q s"
  shows "post (receive_finished p s r) (session_inv q) (session_inv q)"
  using assms
  by (auto simp: receive_finished_def Let_def session_inv_def session_ok_def config_ok_def
        buffer_ok_def
      split: option.splits)

lemma receive_handshake_ok:
  assumes "session_inv p s"
  shows "post (tls_session_receive_handshake p s msg) (session_inv p) (session_inv p)"
proof -
  let ?s1 = "if msg_type msg \<noteq> SSL3_MT_FINISHED
             then s\<lparr>handshake_buffer := handshake_buffer s @
                    put_uint8 (msg_type msg) @ put_uint24_be (msg_length msg) @
                    put_data (body msg) (unat (msg_length msg))\<rparr>
             else s"
  have inv1: "session_inv p ?s1" using assms by simp
  then have ok1: "session_ok ?s1" by (rule session_inv_ok)
  show ?thesis
    unfolding tls_session_receive_handshake_def Let_def
    apply (rule post_if, rule receive_server_hello_ok [OF inv1])
    apply (rule post_if, rule receive_certificate_request_ok [OF inv1])
    apply (rule post_if, rule receive_server_done_ok [OF ok1])
    apply (rule post_if, rule receive_finished_ok [OF inv1])
    using inv1 apply (simp only: post_simps)
    done
qed

lemma receive_body_ok:
  assumes "session_inv p s"
  shows "case receive_body p s t r of
           Continue s' r' \<Rightarrow> session_inv p s'
         | Return out \<Rightarrow> post out (session_inv p) (session_inv p)"
proof -
  have ccs: "case receive_change_cipher_spec s r of
           Continue s' r' \<Rightarrow> session_inv p s'
         | Return out \<Rightarrow> post out (session_inv p) (session_inv p)"
    using assms
    by (auto simp: receive_change_cipher_spec_def session_inv_def session_ok_def config_ok_def
          buffer_ok_def known_suite_def split: option.splits)
  have cl: "case tls_session_close p s of
              Aborted \<Rightarrow> True | Failed e s1 \<Rightarrow> session_inv p s1 | Ok s1 \<Rightarrow> True"
    using close_ok [OF assms, of p] by (cases "tls_session_close p s") simp_all
  have alert: "case receive_alert p s r of
           Continue s' r' \<Rightarrow> session_inv p s'
         | Return out \<Rightarrow> post out (session_inv p) (session_inv p)"
    using assms cl
    by (auto simp: receive_alert_def split: option.splits outcome.splits)
  have hs: "case receive_handshake_record p s r of
           Continue s' r' \<Rightarrow> session_inv p s'
         | Return out \<Rightarrow> post out (session_inv p) (session_inv p)"
  proof (cases "read_handshake r")
    case None
    then show ?thesis by (simp add: receive_handshake_record_def)
  next
    case (Some a)
    obtain msg r1 where a: "a = (msg, r1)" by (cases a)
    show ?thesis
      using receive_handshake_ok [OF assms, of msg] Some a
      by (cases "tls_session_receive_handshake p s msg")
         (simp_all add: receive_handshake_record_def)
  qed
  have app: "case receive_application_data s r of
           Continue s' r' \<Rightarrow> session_inv p s'
         | Return out \<Rightarrow> post out (session_inv p) (session_inv p)"
    using assms by (simp add: receive_application_data_def)
  show ?thesis
    using ccs alert hs app by (simp add: receive_body_def)
qed

lemma receive_loop_ok:
  "session_inv p s \<Longrightarrow>
   post (tls_session_receive_loop p s t r) (session_inv p) (session_inv p)"
proof (induction p s t r rule: tls_session_receive_loop.induct)
  case (1 p self type reader)
  show ?case
  proof (cases "reader = []")
    case True
    then show ?thesis using "1.prems" by (simp add: receive_loop_Nil)
  next
    case False
    show ?thesis
    proof (cases "receive_body p self type reader")
      case (Continue s1 r1)
      with receive_body_ok [OF "1.prems", of type reader] have "session_inv p s1" by simp
      from "1.IH" [OF False Continue this] show ?thesis
        using False Continue by (subst tls_session_receive_loop.simps) simp
    next
      case (Return out)
      with receive_body_ok [OF "1.prems", of type reader] show ?thesis
        using False by (subst tls_session_receive_loop.simps) simp
    qed
  qed
qed

lemma receive_ok:
  "session_inv p s \<Longrightarrow>
   post (tls_session_receive p s r) (session_inv p) (session_inv p)"
  unfolding tls_session_receive_def by (rule receive_loop_ok)

lemma decrypt_ok:
  "session_inv q s \<Longrightarrow>
   post (tls_session_decrypt p s t v c) (\<lambda>(s', pt). session_inv q s') (session_inv q)"
  by (auto simp: tls_session_decrypt_def Let_def split: option.splits)

lemma receive_ciphertext_loop_ok:
  "session_inv p s \<Longrightarrow>
   post (tls_session_receive_ciphertext_loop p s r) (session_inv p) (session_inv p)"
proof (induction p s r rule: tls_session_receive_ciphertext_loop.induct)
  case (1 p self reader)
  show ?case
  proof (cases "reader = []")
    case True
    then show ?thesis using "1.prems" by (simp add: receive_ciphertext_loop_Nil)
  next
    case False
    show ?thesis
    proof (cases "read_record reader")
      case None
      then show ?thesis using False
        by (subst tls_session_receive_ciphertext_loop.simps) simp
    next
      case (Some a)
      obtain content_type ver cfrag reader1 where a: "a = ((content_type, ver, cfrag), reader1)"
        by (cases a) auto
      show ?thesis
      proof (cases "ver \<noteq> version self")
        case True
        then show ?thesis using False Some a
          by (subst tls_session_receive_ciphertext_loop.simps) simp
      next
        case ver: False
        show ?thesis
        proof (cases "tls_session_decrypt p self content_type ver cfrag")
          case (Ok b)
          obtain self1 pfrag where b: "b = (self1, pfrag)" by (cases b)
          with Ok decrypt_ok [OF "1.prems", of p content_type ver cfrag]
          have inv1: "session_inv p self1" by simp
          let ?rec = "\<lparr>rec_type = content_type, rec_version = version self1,
                        rec_length = of_nat (length pfrag), fragment = pfrag\<rparr>"
          show ?thesis
          proof (cases "tls_session_receive p self1 ?rec")
            case (Ok self2)
            with receive_ok [OF inv1, of ?rec] have inv2: "session_inv p self2" by simp
            have dec: "tls_session_decrypt p self content_type ver cfrag = Ok (self1, pfrag)"
              using \<open>tls_session_decrypt p self content_type ver cfrag = Ok b\<close> b by simp
            from "1.IH" [OF False Some a [symmetric] refl refl ver
                \<open>tls_session_decrypt p self content_type ver cfrag = Ok b\<close>
                b [symmetric] Ok inv2]
            show ?thesis
              using False Some a dec Ok ver
              by (subst tls_session_receive_ciphertext_loop.simps) simp
          next
            case (Failed e s2)
            with receive_ok [OF inv1, of ?rec] show ?thesis
              using False Some a ver \<open>tls_session_decrypt p self content_type ver cfrag = Ok b\<close> b
              by (subst tls_session_receive_ciphertext_loop.simps) simp
          next
            case Aborted
            then show ?thesis
              using False Some a ver \<open>tls_session_decrypt p self content_type ver cfrag = Ok b\<close> b
              by (subst tls_session_receive_ciphertext_loop.simps) simp
          qed
        next
          case (Failed e s1)
          with decrypt_ok [OF "1.prems", of p content_type ver cfrag] show ?thesis
            using False Some a ver
            by (subst tls_session_receive_ciphertext_loop.simps) simp
        next
          case Aborted
          then show ?thesis using False Some a ver
            by (subst tls_session_receive_ciphertext_loop.simps) simp
        qed
      qed
    qed
  qed
qed

subsection \<open>The invariant of the public functions\<close>

lemma client_hello_body_exact:
  assumes "config_ok s" and "handshake_phase s = HANDSHAKE_BEGIN"
  shows "client_hello_body s =
           [0x03, 0x03] @ client_random s @ [7] @ replicate 7 0 @ [0x00, 0x02] @ [0xC0, 0x2E] @
           [0x00] @
           [0x00, 0x0A, 0x00, 0x04, 0x00, 0x02, 0x00, 0x17] @
           [0x00, 0x0B, 0x00, 0x02, 0x01, 0x00]"
  using assms
  by (simp add: client_hello_body_def config_ok_def put_uint16_TLS1_2 put_uint8_def
        put_data_def RANDOM_SIZE_def put_uint16_be_def TLS1_2_VERSION_def
        TLS_ECDH_ECDSA_WITH_AES_256_GCM_SHA384_def)

lemma client_hello_bytes_exact:
  assumes "config_ok s" and "handshake_phase s = HANDSHAKE_BEGIN"
  shows "handshake_msg_bytes (client_hello_msg s) = [1, 0, 0, 61] @ client_hello_body s"
proof -
  have len: "length (client_hello_body s) = 61"
    using assms by (simp add: client_hello_body_exact config_ok_def RANDOM_SIZE_def)
  show ?thesis
    by (simp add: handshake_msg_bytes_def client_hello_msg_def Let_def len put_uint8_def
          put_uint24_be_def put_data_def SSL3_MT_CLIENT_HELLO_def)
qed

lemma establish_ok:
  assumes "session_inv q s"
  shows "post (tls_session_establish p s) (session_inv q) (session_inv q)"
proof (cases "handshake_phase s = HANDSHAKE_BEGIN")
  case False
  then show ?thesis by (simp add: tls_session_establish_def)
next
  case True
  have ok: "session_ok s" using assms by (rule session_inv_ok)
  then have cfg: "config_ok s" by (simp add: session_ok_def)
  have len: "length (handshake_msg_bytes (client_hello_msg s)) = 65"
    using client_hello_bytes_exact [OF cfg True] client_hello_body_exact [OF cfg True] cfg
    by (simp add: config_ok_def RANDOM_SIZE_def)
  show ?thesis
  proof (cases "tls_session_send_client_hello p s")
    case (Ok s1)
    from Ok send_handshake_msg_ok [OF ok, of p "client_hello_msg s"]
    have ok1: "session_ok s1"
      and cb1: "content_buffer s1 =
          (if content_buffer_type s = SSL3_RT_HANDSHAKE then content_buffer s else []) @
          take (unat (of_nat (length (handshake_msg_bytes (client_hello_msg s))) :: 16 word))
            (handshake_msg_bytes (client_hello_msg s))"
      by (simp_all add: tls_session_send_client_hello_def)
    have ne1: "content_buffer s1 \<noteq> []"
      using cb1 handshake_msg_bytes_nonempty [of "client_hello_msg s"] len by simp
    have "session_ok (s1\<lparr>handshake_phase := CLIENT_HELLO_SENT\<rparr>)"
      using ok1 by (simp add: session_ok_def config_ok_def buffer_ok_def)
    then have "session_inv q (s1\<lparr>handshake_phase := CLIENT_HELLO_SENT\<rparr>)"
      using ne1 by (simp add: session_inv_def)
    then show ?thesis using Ok True by (simp add: tls_session_establish_def)
  next
    case (Failed e s1)
    with send_handshake_msg_ok [OF ok, of p "client_hello_msg s"] show ?thesis
      by (simp add: tls_session_send_client_hello_def)
  next
    case Aborted
    then show ?thesis using True by (simp add: tls_session_establish_def)
  qed
qed

lemma flush_send_buffer_ok:
  assumes "session_ok s"
  shows "\<exists>s1. tls_session_flush_send_buffer p s = Ok (s1\<lparr>send_buffer := []\<rparr>, send_buffer s1) \<and>
           session_ok s1 \<and> content_buffer s1 = [] \<and> content_buffer_type s1 = 0"
  using flush_content_buffer_ok [OF assms, of p]
  by (auto simp: tls_session_flush_send_buffer_def)

lemma flush_send_buffer_inv:
  assumes "session_inv q s"
  shows "post (tls_session_flush_send_buffer p s) (\<lambda>(s', out). session_inv q s') (session_inv q)"
proof -
  from flush_send_buffer_ok [OF session_inv_ok [OF assms], of p]
  obtain s1 where r: "tls_session_flush_send_buffer p s = Ok (s1\<lparr>send_buffer := []\<rparr>, send_buffer s1)"
    and ok1: "session_ok s1" and ty1: "content_buffer_type s1 = 0"
    by blast
  have "session_inv q s1" using ok1 ty1 by (simp add: session_inv_def)
  then show ?thesis using r by simp
qed

lemma wrap_inv:
  assumes "session_inv q s"
  shows "post (tls_session_wrap p s pdata) (\<lambda>(s', out). session_inv q s') (session_inv q)"
proof -
  let ?r = "\<lparr>rec_type = SSL3_RT_APPLICATION_DATA, rec_version = 0,
             rec_length = of_nat (length pdata), fragment = pdata\<rparr>"
  have ty: "rec_type ?r \<noteq> 0" by (simp add: SSL3_RT_APPLICATION_DATA_def)
  have ok: "session_ok s" using assms by (rule session_inv_ok)
  show ?thesis
  proof (cases "tls_session_send p s ?r")
    case (Ok s1)
    with send_ok [OF ok ty, of p] have ok1: "session_ok s1" by simp
    from flush_send_buffer_ok [OF ok1, of p]
    obtain s2 where r: "tls_session_flush_send_buffer p s1 = Ok (s2\<lparr>send_buffer := []\<rparr>, send_buffer s2)"
      and ok2: "session_ok s2" and ty2: "content_buffer_type s2 = 0"
      by blast
    have "session_inv q s2" using ok2 ty2 by (simp add: session_inv_def)
    then show ?thesis using Ok r
      by (simp add: tls_session_wrap_def tls_session_send_application_data_def Let_def)
  next
    case (Failed e s1)
    with send_ok [OF ok ty, of p] show ?thesis by simp
  next
    case Aborted
    then show ?thesis
      by (simp add: tls_session_wrap_def tls_session_send_application_data_def Let_def)
  qed
qed

lemma receive_ciphertext_inv:
  "session_inv p s \<Longrightarrow>
   post (tls_session_receive_ciphertext p s data) (session_inv p) (session_inv p)"
  by (simp add: tls_session_receive_ciphertext_def receive_ciphertext_loop_ok)

lemma unwrap_inv:
  assumes "session_inv p s"
  shows "post (tls_session_unwrap p s cdata) (\<lambda>(s', out). session_inv p s') (session_inv p)"
  using receive_ciphertext_inv [OF assms, of cdata]
  by (cases "tls_session_receive_ciphertext p s cdata") (simp_all add: tls_session_unwrap_def)

lemma init_inv: "session_inv q (tls_session_init p tls_session_new pd)"
  by (simp add: session_inv_def session_ok_def config_ok_def buffer_ok_def known_suite_def
        tls_session_init_def tls_session_new_def RAND_bytes_def Let_def RANDOM_SIZE_def
        TLS_NULL_WITH_NULL_NULL_def)

lemma reachable_inv: "reachable p s \<Longrightarrow> session_inv p s"
proof (induction rule: reachable.induct)
  case (init pd)
  show ?case by (rule init_inv)
next
  case (establish s s')
  from establish_ok [OF establish.IH, of p] establish.hyps(2) show ?case
    by (rule final_session_post)
next
  case (receive_ciphertext s data s')
  from receive_ciphertext_inv [OF receive_ciphertext.IH, of data] receive_ciphertext.hyps(2)
  show ?case by (rule final_session_post)
next
  case (flush_send_buffer s s')
  have "post (tls_session_flush_send_buffer p s) (\<lambda>a. session_inv p (fst a)) (session_inv p)"
    using flush_send_buffer_inv [OF flush_send_buffer.IH, of p]
    by (rule post_weaken) auto
  from this flush_send_buffer.hyps(2) show ?case by (rule final_session_post)
next
  case (wrap s pdata s')
  have "post (tls_session_wrap p s pdata) (\<lambda>a. session_inv p (fst a)) (session_inv p)"
    using wrap_inv [OF wrap.IH, of p pdata]
    by (rule post_weaken) auto
  from this wrap.hyps(2) show ?case by (rule final_session_post)
next
  case (unwrap s cdata s')
  have "post (tls_session_unwrap p s cdata) (\<lambda>a. session_inv p (fst a)) (session_inv p)"
    using unwrap_inv [OF unwrap.IH, of cdata]
    by (rule post_weaken) auto
  from this unwrap.hyps(2) show ?case by (rule final_session_post)
next
  case (close s s')
  from close_ok [OF close.IH, of p] close.hyps(2) show ?case
    by (rule final_session_post)
qed

subsection \<open>The transcript and the keys after ServerHelloDone\<close>

lemma server_done_messages_transcript:
  assumes "server_done_messages p s = Ok s'" and "flight_fits p" and "p256_point p"
  shows "handshake_buffer s' = handshake_buffer s @
           handshake_msg_bytes (certificate_msg p s) @
           handshake_msg_bytes (client_key_exchange_msg (EVP_EC_gen_pub p)) @
           handshake_msg_bytes
             (certificate_verify_msg
                (EVP_DigestSign p (remote_key (pairing_data s))
                   (handshake_buffer s @
                    handshake_msg_bytes (certificate_msg p s) @
                    handshake_msg_bytes (client_key_exchange_msg (EVP_EC_gen_pub p)))))"
proof -
  let ?key = "EVP_EC_gen_pub p"
  from assms(1) obtain s1 s2 where
    c1: "tls_session_send_handshake_msg p s (certificate_msg p s) = Ok s1" and
    c2: "tls_session_send_handshake_msg p s1 (client_key_exchange_msg ?key) = Ok s2" and
    c3: "tls_session_send_handshake_msg p s2
           (certificate_verify_msg
              (EVP_DigestSign p (remote_key (pairing_data s2)) (handshake_buffer s2))) = Ok s'"
    by (auto simp: server_done_messages_def Let_def tls_session_send_certificate_def
          tls_session_send_client_key_exchange_def tls_session_send_certificate_verify_def
        split: outcome.splits if_splits)
  let ?sig = "EVP_DigestSign p (remote_key (pairing_data s2)) (handshake_buffer s2)"
  have t1: "msg_type (certificate_msg p s) \<noteq> SSL3_MT_FINISHED"
    by (simp add: certificate_msg_def Let_def SSL3_MT_CERTIFICATE_def SSL3_MT_FINISHED_def)
  have t2: "msg_type (client_key_exchange_msg ?key) \<noteq> SSL3_MT_FINISHED"
    by (simp add: client_key_exchange_msg_def SSL3_MT_CLIENT_KEY_EXCHANGE_def SSL3_MT_FINISHED_def)
  have t3: "msg_type (certificate_verify_msg ?sig) \<noteq> SSL3_MT_FINISHED"
    by (simp add: certificate_verify_msg_def Let_def SSL3_MT_CERTIFICATE_VERIFY_def
          SSL3_MT_FINISHED_def)
  have l2: "length (handshake_msg_bytes (client_key_exchange_msg ?key)) < 2 ^ 16"
    using assms(3) key_exchange_bytes_length [of ?key] by (simp add: p256_point_def)
  from send_handshake_msg_frame [of p s "certificate_msg p s"] c1 t1
  have f1: "send_frame s1 = send_frame s"
    and h1: "handshake_buffer s1 = handshake_buffer s @ handshake_msg_bytes (certificate_msg p s)"
    by (simp_all add: short_record_length [OF certificate_bytes_length [OF assms(2)]])
  from send_handshake_msg_frame [of p s1 "client_key_exchange_msg ?key"] c2 t2
  have f2: "send_frame s2 = send_frame s1"
    and h2: "handshake_buffer s2 =
               handshake_buffer s1 @ handshake_msg_bytes (client_key_exchange_msg ?key)"
    by (simp_all add: short_record_length [OF l2])
  from send_handshake_msg_frame [of p s2 "certificate_verify_msg ?sig"] c3 t3
  have f3: "send_frame s' = send_frame s2"
    and h3: "handshake_buffer s' =
               handshake_buffer s2 @ handshake_msg_bytes (certificate_verify_msg ?sig)"
    by (simp_all add: short_record_length [OF certificate_verify_bytes_length [OF assms(2)]])
  have "pairing_data s2 = pairing_data s" using f1 f2 by (simp add: send_frame_def)
  then show ?thesis using h1 h2 h3 by simp
qed

lemma server_done_secrets_result:
  assumes "server_done_secrets p s = Ok (s', kb)"
  shows "s' = s\<lparr>master_secret := master_secret s'\<rparr> \<and>
         EVP_KDF_derive p (hash_algo s)
           (EVP_PKEY_derive p (remote_cert_pub_key (pairing_data s))) ''master secret''
           (take 32 (client_random s) @ take 32 (server_random s)) 48
           = Some (master_secret s') \<and>
         EVP_KDF_derive p (hash_algo s) (master_secret s') ''key expansion''
           (take 32 (client_random s) @ take 32 (server_random s)) 128 = Some kb"
  using assms
  by (auto simp: server_done_secrets_def Let_def tls_prf_def put_data_def RANDOM_SIZE_def
        MASTER_SECRET_SIZE_def MAX_KEY_BLOCK_SIZE_def split: option.splits)

lemma server_done_finish_result:
  assumes "server_done_finish p s kb = Ok s'"
  shows "encr_key s' = take 32 kb \<and> decr_key s' = take 32 (drop 32 kb) \<and>
         encr_iv s' = take 4 (drop 64 kb) \<and> decr_iv s' = take 4 (drop 68 kb) \<and>
         client_cs s' = pending_cs s \<and> handshake_phase s' = SERVER_DONE \<and>
         master_secret s' = master_secret s \<and> handshake_buffer s' = handshake_buffer s \<and>
         (\<exists>vd. EVP_KDF_derive p (hash_algo s) (master_secret s) ''client finished''
                 (EVP_sha256 p (handshake_buffer s)) 12 = Some vd)"
proof -
  from assms obtain s1 where c1: "tls_session_send_change_cipher_spec p s = Ok s1"
    by (auto simp: server_done_finish_def split: outcome.splits)
  let ?s2 = "s1\<lparr>encr_key := take 32 kb, decr_key := take 32 (drop 32 kb),
                 encr_iv := take 4 (drop 64 kb), decr_iv := take 4 (drop 68 kb),
                 client_cs := pending_cs s1\<rparr>"
  from assms c1 obtain vd s3 where
    c3: "tls_session_send_handshake_msg p ?s2 (finished_msg vd) = Ok s3"
    and s': "s' = s3\<lparr>handshake_phase := SERVER_DONE\<rparr>"
    and vd: "EVP_KDF_derive p (hash_algo s1) (master_secret s1) ''client finished''
               (EVP_sha256 p (handshake_buffer s1)) 12 = Some vd"
    by (auto simp: server_done_finish_def Let_def tls_session_send_finished_def tls_prf_def
          tls_session_handshake_hash_def VERIFY_DATA_SIZE_def
          split: outcome.splits option.splits)
  from change_cipher_spec_frame [of p s] c1 have f1: "record_frame s1 = record_frame s"
    by simp
  have t3: "msg_type (finished_msg vd) = SSL3_MT_FINISHED"
    by (simp add: finished_msg_def Let_def)
  from send_handshake_msg_frame [of p ?s2 "finished_msg vd"] c3 t3
  have f3: "send_frame s3 = send_frame ?s2" and h3: "handshake_buffer s3 = handshake_buffer ?s2"
    by simp_all
  show ?thesis
    using f1 f3 h3 s' vd by (simp add: record_frame_def send_frame_def)
qed

lemma receive_server_hello_transcript:
  "receive_server_hello s r = Ok s' \<Longrightarrow> handshake_buffer s' = handshake_buffer s"
  by (auto simp: receive_server_hello_def split: if_splits option.splits)

lemma receive_certificate_request_transcript:
  "receive_certificate_request s r = Ok s' \<Longrightarrow> handshake_buffer s' = handshake_buffer s"
  by (auto simp: receive_certificate_request_def split: if_splits option.splits)

lemma receive_finished_transcript:
  "receive_finished p s r = Ok s' \<Longrightarrow> handshake_buffer s' = handshake_buffer s"
  by (auto simp: receive_finished_def Let_def split: if_splits option.splits)

lemma receive_server_done_transcript:
  assumes "receive_server_done p s = Ok s'" and "flight_fits p" and "p256_point p"
  shows "handshake_buffer s' = handshake_buffer s @
           handshake_msg_bytes (certificate_msg p s) @
           handshake_msg_bytes (client_key_exchange_msg (EVP_EC_gen_pub p)) @
           handshake_msg_bytes
             (certificate_verify_msg
                (EVP_DigestSign p (remote_key (pairing_data s))
                   (handshake_buffer s @
                    handshake_msg_bytes (certificate_msg p s) @
                    handshake_msg_bytes (client_key_exchange_msg (EVP_EC_gen_pub p))))) \<and>
         (\<exists>vd. EVP_KDF_derive p (hash_algo s) (master_secret s') ''client finished''
                 (EVP_sha256 p (handshake_buffer s')) 12 = Some vd)"
proof -
  from assms(1) obtain s1 s2 kb where
    m: "server_done_messages p s = Ok s1" and
    k: "server_done_secrets p s1 = Ok (s2, kb)" and
    f: "server_done_finish p s2 kb = Ok s'"
    by (auto simp: receive_server_done_def split: if_splits outcome.splits)
  from server_done_secrets_result [OF k]
  have s2: "s2 = s1\<lparr>master_secret := master_secret s2\<rparr>" by simp
  have "handshake_buffer s2 = handshake_buffer (s1\<lparr>master_secret := master_secret s2\<rparr>)"
    using s2 by simp
  then have h2: "handshake_buffer s2 = handshake_buffer s1" by simp
  have "hash_algo s2 = hash_algo (s1\<lparr>master_secret := master_secret s2\<rparr>)"
    using s2 by simp
  then have a2: "hash_algo s2 = hash_algo s"
    using server_done_messages_frame [OF m] by (simp add: send_frame_def)
  note f' = server_done_finish_result [OF f]
  from f' have h3: "handshake_buffer s' = handshake_buffer s2" by simp
  from f' obtain vd where "EVP_KDF_derive p (hash_algo s2) (master_secret s2) ''client finished''
                 (EVP_sha256 p (handshake_buffer s2)) 12 = Some vd"
    by blast
  then have "EVP_KDF_derive p (hash_algo s) (master_secret s') ''client finished''
                 (EVP_sha256 p (handshake_buffer s')) 12 = Some vd"
    using f' a2 by simp
  then show ?thesis
    using server_done_messages_transcript [OF m assms(2,3)] h2 h3 by auto
qed

subsection \<open>The handshake on the concrete platform\<close>

lemma witness_session_fields:
  "pending_cs witness_session = 0" "server_cs witness_session = 0"
  "client_cs witness_session = 0" "send_closed witness_session = False"
  "version witness_session = 0x0303" "recv_closed witness_session = False"
  by (simp_all add: witness_session_def tls_session_init_def tls_session_new_def RAND_bytes_def
        Let_def TLS_NULL_WITH_NULL_NULL_def TLS1_2_VERSION_def)

lemma witness_session_buffer:
  "content_buffer_type witness_session = 0" "content_buffer witness_session = []"
  "content_buffer_owner witness_session = []"
  by (simp_all add: witness_session_def tls_session_init_def tls_session_new_def RAND_bytes_def
        Let_def)

lemma witness_platform_contracts:
  "gcm_sized witness_platform" "kdf_sized witness_platform"
  "p256_point witness_platform" "flight_fits witness_platform"
  by (auto simp: gcm_sized_def kdf_sized_def p256_point_def flight_fits_def witness_platform_def)

lemma witness_establish:
  "tls_session_establish witness_platform witness_session = Ok witness_hello_sent"
  by (simp add: witness_hello_sent_def const_defs codec_defs send_defs receive_defs
        witness_defs Let_def)

lemma witness_flush_hello:
  "tls_session_flush_send_buffer witness_platform witness_hello_sent
     = Ok (witness_hello_flushed,
           [22, 3, 3, 0, 65] @ handshake_msg_bytes (client_hello_msg witness_session))"
  by (simp add: witness_hello_flushed_def witness_hello_sent_def const_defs codec_defs send_defs
        witness_defs Let_def)

lemma witness_receive_flight:
  "tls_session_receive_ciphertext witness_platform witness_hello_flushed witness_server_flight
     = Ok witness_flight_sent"
  by (simp add: witness_flight_sent_def witness_server_done_def witness_transcript_def
        witness_server_flight_def witness_hello_flushed_def witness_hello_sent_def
        receive_ciphertext_loop_Cons receive_ciphertext_loop_Nil
        receive_loop_Cons receive_loop_Nil
        const_defs codec_defs send_defs receive_defs witness_defs Let_def)

lemma witness_flush_flight:
  "tls_session_flush_send_buffer witness_platform witness_flight_sent
     = Ok (witness_flight_flushed,
           send_buffer witness_flight_sent @
           [22, 3, 3, 0, 40] @ [32, 33, 34, 35, 36, 37, 38, 39] @
           map (\<lambda>b. b + 1) (handshake_msg_bytes (finished_msg (replicate 12 15))) @
           replicate 16 0xAA)"
  by (simp add: witness_flight_flushed_def witness_flight_sent_def witness_server_done_def
        witness_transcript_def witness_server_flight_def
        const_defs codec_defs send_defs witness_defs Let_def)

lemma witness_receive_ccs:
  "tls_session_receive_ciphertext witness_platform witness_flight_flushed [20, 3, 3, 0, 1, 1]
     = Ok witness_server_done"
  by (simp add: witness_flight_flushed_def witness_server_done_def
        receive_ciphertext_loop_Cons receive_ciphertext_loop_Nil
        receive_loop_Cons receive_loop_Nil
        const_defs codec_defs receive_defs witness_defs Let_def)

lemma witness_receive_finished:
  "tls_session_receive_ciphertext witness_platform witness_server_done witness_server_finished
     = Ok (witness_server_done\<lparr>handshake_phase := FINISHED, decr_seq_num := 1\<rparr>)"
  by (simp add: witness_server_finished_def witness_server_done_def
        receive_ciphertext_loop_Cons receive_ciphertext_loop_Nil
        receive_loop_Cons receive_loop_Nil
        const_defs codec_defs send_defs receive_defs witness_defs Let_def)

lemma witness_receive_server_done:
  "tls_session_receive_handshake witness_platform witness_suite_handshake
     \<lparr>msg_type = SSL3_MT_SERVER_DONE, msg_length = 0, body = []\<rparr> = Ok witness_flight_sent"
  by (simp add: witness_suite_handshake_def witness_flight_sent_def witness_server_done_def
        witness_transcript_def witness_server_flight_def witness_hello_flushed_def
        witness_hello_sent_def
        const_defs codec_defs send_defs receive_defs witness_defs Let_def)

lemma witness_send_finished:
  "tls_session_send_handshake_msg witness_platform witness_session
     (finished_msg (replicate 12 15))
   = Ok (witness_session
           \<lparr>content_buffer := handshake_msg_bytes (finished_msg (replicate 12 15)),
            content_buffer_type := 22, content_buffer_owner := replicate 16 22\<rparr>)"
  by (simp add: const_defs codec_defs send_defs witness_defs Let_def)

lemma witness_encrypt:
  "tls_session_encrypt witness_platform witness_server_done 23 [1, 2, 3]
     = Ok (witness_server_done\<lparr>rand_pos := 48, encr_seq_num := 2\<rparr>,
           [23, 3, 3, 0, 27] @ [40, 41, 42, 43, 44, 45, 46, 47] @ [2, 3, 4] @ replicate 16 0xAA)"
  by (simp add: witness_server_done_def const_defs codec_defs send_defs witness_defs Let_def)

lemma witness_wrap_empty:
  "tls_session_wrap witness_platform witness_server_done []
     = Ok (witness_server_done\<lparr>rand_pos := 48, encr_seq_num := 2\<rparr>,
           [23, 3, 3, 0, 24] @ [40, 41, 42, 43, 44, 45, 46, 47] @ replicate 16 0xAA)"
  by (simp add: witness_server_done_def tls_session_wrap_def
        tls_session_send_application_data_def
        const_defs codec_defs send_defs witness_defs Let_def)

lemma witness_encrypt_null:
  "tls_session_encrypt witness_platform witness_session 22 [1]
     = Ok (witness_session, [22, 3, 3, 0, 1, 1])"
  by (simp add: const_defs codec_defs send_defs witness_defs Let_def)

lemma witness_server_done_fields:
  "version witness_server_done = TLS1_2_VERSION"
  "client_cs witness_server_done = TLS_ECDH_ECDSA_WITH_AES_256_GCM_SHA384"
  "encr_seq_num witness_server_done = 1"
  by (simp_all add: witness_server_done_def witness_defs const_defs Let_def)

lemma witness_suite_handshake_fields:
  "hash_algo witness_suite_handshake = SN_sha384"
  by (simp add: witness_suite_handshake_def witness_hello_flushed_def witness_hello_sent_def
        witness_defs Let_def)

lemma witness_flight_sent_fields:
  "content_buffer_type witness_flight_sent = 22"
  "content_buffer witness_flight_sent = handshake_msg_bytes (finished_msg (replicate 12 15))"
  "content_buffer_owner witness_flight_sent = replicate 16 22"
  by (simp_all add: witness_flight_sent_def)

lemma reachable_witness_session: "reachable witness_platform witness_session"
  unfolding witness_session_def by (rule reachable.init)

lemma reachable_witness_hello_sent: "reachable witness_platform witness_hello_sent"
  by (rule reachable.establish [OF reachable_witness_session]) (simp add: witness_establish)

lemma reachable_witness_flight_sent: "reachable witness_platform witness_flight_sent"
proof -
  have "reachable witness_platform witness_hello_flushed"
    by (rule reachable.flush_send_buffer [OF reachable_witness_hello_sent])
       (simp add: witness_flush_hello)
  then show ?thesis
    by (rule reachable.receive_ciphertext [of _ _ witness_server_flight])
       (simp add: witness_receive_flight)
qed

lemma reachable_witness_server_done: "reachable witness_platform witness_server_done"
proof -
  have "reachable witness_platform witness_flight_flushed"
    by (rule reachable.flush_send_buffer [OF reachable_witness_flight_sent])
       (simp add: witness_flush_flight)
  then show ?thesis
    by (rule reachable.receive_ciphertext [of _ _ "[20, 3, 3, 0, 1, 1]"])
       (simp add: witness_receive_ccs)
qed

section \<open>The handshake transcript leaves out Finished\<close>

text \<open>
  C1. A handshake message that \<open>tls_session_send_handshake_msg\<close> sends, or that
  \<open>tls_session_receive_handshake\<close> receives, is appended to the transcript
  (\<open>handshake_buffer\<close>) as type, 3-byte length and body exactly when its type is not
  Finished. Sending the client Finished and receiving the server Finished leave the
  transcript as it was. The messages the session emits while it processes
  ServerHelloDone follow the received one in the order of transmission: Certificate,
  ClientKeyExchange, CertificateVerify (whose signature is over the transcript up to
  ClientKeyExchange), and the Finished, which is not appended, so that its verify data is
  the PRF of the hash of the transcript as it stays. A message that is sent has to fit a
  record (the 16-bit record length); the Certificate of \<open>CERTIFICATE_SIZE\<close> bytes, the
  65-byte key and the signature do.
\<close>

theorem transcript_excludes_finished:
  "(tls_session_send_handshake_msg p s m = Ok s1 \<longrightarrow>
      length (handshake_msg_bytes m) < 2 ^ 16 \<longrightarrow>
      handshake_buffer s1 = handshake_buffer s @ transcript_bytes [m]) \<and>
   (tls_session_receive_handshake p t m' = Ok t1 \<longrightarrow> flight_fits p \<longrightarrow> p256_point p \<longrightarrow>
      (\<exists>sig vd.
         handshake_buffer t1 = handshake_buffer t @
           transcript_bytes
             (m' # (if msg_type m' = SSL3_MT_SERVER_DONE
                    then [certificate_msg p t,
                          client_key_exchange_msg (EVP_EC_gen_pub p),
                          certificate_verify_msg sig,
                          finished_msg vd]
                    else [])) \<and>
         (msg_type m' = SSL3_MT_SERVER_DONE \<longrightarrow>
            sig = EVP_DigestSign p (remote_key (pairing_data t))
                    (handshake_buffer t @
                     transcript_bytes
                       [m', certificate_msg p t,
                        client_key_exchange_msg (EVP_EC_gen_pub p)]) \<and>
            EVP_KDF_derive p (hash_algo t) (master_secret t1) ''client finished''
              (EVP_sha256 p (handshake_buffer t1)) 12 = Some vd)))"
proof (intro conjI impI)
  assume a: "tls_session_send_handshake_msg p s m = Ok s1"
    and l: "length (handshake_msg_bytes m) < 2 ^ 16"
  from send_handshake_msg_frame [of p s m] a
  show "handshake_buffer s1 = handshake_buffer s @ transcript_bytes [m]"
    by (simp add: short_record_length [OF l] transcript_bytes_def)
next
  assume a: "tls_session_receive_handshake p t m' = Ok t1"
    and ff: "flight_fits p" and pp: "p256_point p"
  let ?s0 = "if msg_type m' \<noteq> SSL3_MT_FINISHED
             then t\<lparr>handshake_buffer := handshake_buffer t @ handshake_msg_bytes m'\<rparr>
             else t"
  let ?r = "take (unat (msg_length m')) (body m')"
  let ?key = "EVP_EC_gen_pub p"
  have h0: "handshake_buffer ?s0 = handshake_buffer t @ transcript_bytes [m']"
    by (simp add: transcript_bytes_def)
  have fin: "msg_type (finished_msg vd) = SSL3_MT_FINISHED" for vd
    by (simp add: finished_msg_def Let_def)
  have t1: "msg_type (certificate_msg p t) \<noteq> SSL3_MT_FINISHED"
    by (simp add: certificate_msg_def Let_def SSL3_MT_CERTIFICATE_def SSL3_MT_FINISHED_def)
  have t2: "msg_type (client_key_exchange_msg k) \<noteq> SSL3_MT_FINISHED" for k
    by (simp add: client_key_exchange_msg_def SSL3_MT_CLIENT_KEY_EXCHANGE_def SSL3_MT_FINISHED_def)
  have t3: "msg_type (certificate_verify_msg sg) \<noteq> SSL3_MT_FINISHED" for sg
    by (simp add: certificate_verify_msg_def Let_def SSL3_MT_CERTIFICATE_VERIFY_def
          SSL3_MT_FINISHED_def)
  have eq: "tls_session_receive_handshake p t m' =
      (if msg_type m' = SSL3_MT_SERVER_HELLO then receive_server_hello ?s0 ?r
       else if msg_type m' = SSL3_MT_CERTIFICATE_REQUEST then receive_certificate_request ?s0 ?r
       else if msg_type m' = SSL3_MT_SERVER_DONE then receive_server_done p ?s0
       else if msg_type m' = SSL3_MT_FINISHED then receive_finished p ?s0 ?r
       else Ok ?s0)"
    by (simp add: tls_session_receive_handshake_def Let_def handshake_msg_bytes_def)
  show "\<exists>sig vd.
         handshake_buffer t1 = handshake_buffer t @
           transcript_bytes
             (m' # (if msg_type m' = SSL3_MT_SERVER_DONE
                    then [certificate_msg p t,
                          client_key_exchange_msg (EVP_EC_gen_pub p),
                          certificate_verify_msg sig,
                          finished_msg vd]
                    else [])) \<and>
         (msg_type m' = SSL3_MT_SERVER_DONE \<longrightarrow>
            sig = EVP_DigestSign p (remote_key (pairing_data t))
                    (handshake_buffer t @
                     transcript_bytes
                       [m', certificate_msg p t,
                        client_key_exchange_msg (EVP_EC_gen_pub p)]) \<and>
            EVP_KDF_derive p (hash_algo t) (master_secret t1) ''client finished''
              (EVP_sha256 p (handshake_buffer t1)) 12 = Some vd)"
  proof (cases "msg_type m' = SSL3_MT_SERVER_DONE")
    case True
    then have nf: "msg_type m' \<noteq> SSL3_MT_FINISHED"
      by (simp add: SSL3_MT_SERVER_DONE_def SSL3_MT_FINISHED_def)
    let ?sig = "EVP_DigestSign p (remote_key (pairing_data t))
                  (handshake_buffer t @
                   transcript_bytes [m', certificate_msg p t, client_key_exchange_msg ?key])"
    from a eq True have "receive_server_done p ?s0 = Ok t1"
      by (simp add: SSL3_MT_SERVER_DONE_def SSL3_MT_SERVER_HELLO_def
            SSL3_MT_CERTIFICATE_REQUEST_def)
    note r = receive_server_done_transcript [OF this ff pp]
    have c0: "certificate_msg p ?s0 = certificate_msg p t"
      by (simp add: certificate_msg_def)
    have sg: "EVP_DigestSign p (remote_key (pairing_data ?s0))
                   (handshake_buffer ?s0 @
                    handshake_msg_bytes (certificate_msg p ?s0) @
                    handshake_msg_bytes (client_key_exchange_msg ?key)) = ?sig"
      using nf t1 t2 c0 by (simp add: transcript_bytes_def)
    from r obtain vd where vd: "EVP_KDF_derive p (hash_algo t) (master_secret t1)
        ''client finished'' (EVP_sha256 p (handshake_buffer t1)) 12 = Some vd"
      using nf by auto
    from r have "handshake_buffer t1 = handshake_buffer ?s0 @
           handshake_msg_bytes (certificate_msg p ?s0) @
           handshake_msg_bytes (client_key_exchange_msg ?key) @
           handshake_msg_bytes (certificate_verify_msg ?sig)"
      unfolding sg by simp
    then have "handshake_buffer t1 = handshake_buffer t @
           transcript_bytes
             [m', certificate_msg p t, client_key_exchange_msg ?key,
              certificate_verify_msg ?sig, finished_msg vd]"
      using nf t1 t2 t3 fin c0 by (simp add: transcript_bytes_def)
    then show ?thesis using True vd by auto
  next
    case False
    have "handshake_buffer t1 = handshake_buffer ?s0"
      using a eq False receive_server_hello_transcript [of ?s0 ?r t1]
        receive_certificate_request_transcript [of ?s0 ?r t1]
        receive_finished_transcript [of p ?s0 ?r t1]
      by (auto split: if_splits)
    then show ?thesis using False h0 by simp
  qed
qed

text \<open>
  The theorem on the concrete platform: a Finished that is sent, and the ServerHelloDone
  on the session that has seen ServerHello and CertificateRequest.
\<close>

theorem transcript_excludes_finished_witness:
  "tls_session_send_handshake_msg witness_platform witness_session
     (finished_msg (replicate 12 15))
   = Ok (witness_session
           \<lparr>content_buffer := handshake_msg_bytes (finished_msg (replicate 12 15)),
            content_buffer_type := 22, content_buffer_owner := replicate 16 22\<rparr>) \<and>
   length (handshake_msg_bytes (finished_msg (replicate 12 15))) < 2 ^ 16 \<and>
   handshake_buffer
     (witness_session
        \<lparr>content_buffer := handshake_msg_bytes (finished_msg (replicate 12 15)),
         content_buffer_type := 22, content_buffer_owner := replicate 16 22\<rparr>)
     = handshake_buffer witness_session @ transcript_bytes [finished_msg (replicate 12 15)] \<and>
   transcript_bytes [finished_msg (replicate 12 15)] = [] \<and>
   tls_session_receive_handshake witness_platform witness_suite_handshake
     \<lparr>msg_type = SSL3_MT_SERVER_DONE, msg_length = 0, body = []\<rparr> = Ok witness_flight_sent \<and>
   flight_fits witness_platform \<and> p256_point witness_platform \<and>
   (\<exists>sig vd.
      handshake_buffer witness_flight_sent = handshake_buffer witness_suite_handshake @
        transcript_bytes
          [\<lparr>msg_type = SSL3_MT_SERVER_DONE, msg_length = 0, body = []\<rparr>,
           certificate_msg witness_platform witness_suite_handshake,
           client_key_exchange_msg (EVP_EC_gen_pub witness_platform),
           certificate_verify_msg sig,
           finished_msg vd])"
proof -
  let ?fin = "finished_msg (replicate 12 15)"
  let ?s1 = "witness_session
           \<lparr>content_buffer := handshake_msg_bytes (finished_msg (replicate 12 15)),
            content_buffer_type := 22, content_buffer_owner := replicate 16 22\<rparr>"
  let ?shd = "\<lparr>msg_type = SSL3_MT_SERVER_DONE, msg_length = 0, body = []\<rparr>"
  have l: "length (handshake_msg_bytes ?fin) < 2 ^ 16"
    using finished_bytes_length [of "replicate 12 15"] by simp
  have e: "transcript_bytes [?fin] = []"
    by (simp add: transcript_bytes_def finished_msg_def Let_def)
  note t = transcript_excludes_finished [of witness_platform witness_session ?fin ?s1
      witness_suite_handshake ?shd witness_flight_sent]
  from t witness_send_finished l
  have p1: "handshake_buffer ?s1 = handshake_buffer witness_session @ transcript_bytes [?fin]"
    by blast
  from t witness_receive_server_done witness_platform_contracts(3,4)
  have p2: "\<exists>sig vd.
      handshake_buffer witness_flight_sent = handshake_buffer witness_suite_handshake @
        transcript_bytes
          [?shd, certificate_msg witness_platform witness_suite_handshake,
           client_key_exchange_msg (EVP_EC_gen_pub witness_platform),
           certificate_verify_msg sig, finished_msg vd]"
    by auto
  show ?thesis
    using witness_send_finished l p1 e witness_receive_server_done
      witness_platform_contracts(3,4) p2
    by blast
qed

section \<open>Verification of the server's Finished\<close>

text \<open>
  C2 (as the code has it). When a server Finished message is received in phase
  \<open>SERVER_DONE\<close> by a session whose PRF digest is SHA-384 (as \<open>tls_session_init\<close> sets
  it), and the read cipher state equals the write cipher state and the body has at least
  12 bytes (the code asserts both), the session computes the 12-byte TLS-PRF output keyed
  with the master secret, with label "server finished" and seed SHA-256 of the handshake
  transcript, and compares it with the 12 received bytes. On a match the phase becomes
  \<open>FINISHED\<close>. On a mismatch the code stops on \<^verbatim>\<open>g_assert_not_reached\<close>: no
  decrypt_error alert is emitted and no error is returned. A failure of the PRF itself is
  returned as an error.
\<close>

theorem server_finished_verification:
  assumes "handshake_phase s = SERVER_DONE" and "msg_type msg = SSL3_MT_FINISHED"
    and "hash_algo s = SN_sha384"
  shows "tls_session_receive_handshake p s msg =
     (if server_cs s \<noteq> client_cs s then Aborted
      else if length (take (unat (msg_length msg)) (body msg)) < 12 then Aborted
      else
        (case EVP_KDF_derive p ''SHA384'' (master_secret s) ''server finished''
                (EVP_sha256 p (handshake_buffer s)) 12 of
           None \<Rightarrow> Failed (Some FP_DEVICE_ERROR_GENERAL) s
         | Some expected \<Rightarrow>
             if take 12 expected = take 12 (body msg)
             then Ok (s\<lparr>handshake_phase := FINISHED\<rparr>)
             else Aborted))"
  using assms
  by (auto simp: tls_session_receive_handshake_def receive_finished_def Let_def dup_data_def
        tls_prf_def tls_session_handshake_hash_def VERIFY_DATA_SIZE_def SN_sha384_def
        SSL3_MT_FINISHED_def SSL3_MT_SERVER_HELLO_def SSL3_MT_CERTIFICATE_REQUEST_def
        SSL3_MT_SERVER_DONE_def min_def
      split: option.splits)

text \<open>
  The theorem on the session that the handshake on the concrete platform reaches after the
  server's ChangeCipherSpec, with the verify data that platform's PRF gives.
\<close>

theorem server_finished_verification_witness:
  "handshake_phase witness_server_done = SERVER_DONE \<and>
   hash_algo witness_server_done = SN_sha384 \<and>
   tls_session_receive_handshake witness_platform witness_server_done
     \<lparr>msg_type = SSL3_MT_FINISHED, msg_length = 12, body = replicate 12 15\<rparr>
   = Ok (witness_server_done\<lparr>handshake_phase := FINISHED\<rparr>)"
proof -
  have a: "handshake_phase witness_server_done = SERVER_DONE"
    by (simp add: witness_server_done_def)
  have b: "msg_type \<lparr>msg_type = SSL3_MT_FINISHED, msg_length = 12, body = replicate 12 15\<rparr>
             = SSL3_MT_FINISHED"
    by simp
  have c: "hash_algo witness_server_done = SN_sha384"
    by (simp add: witness_server_done_def witness_defs Let_def)
  show ?thesis
    using server_finished_verification [OF a b c, of witness_platform] a c
    by (simp add: witness_server_done_def witness_platform_def)
qed

text \<open>
  C2 as stated asks for a fatal decrypt_error on a mismatch. On the same session, a
  Finished whose verify data is wrong in every byte ends in the failed assertion, both
  in \<open>tls_session_receive_handshake\<close> and when the encrypted record that carries it is
  given to \<open>tls_session_receive_ciphertext\<close>.
\<close>

theorem server_finished_verification_counterexample:
  "handshake_phase witness_server_done = SERVER_DONE \<and>
   server_cs witness_server_done = client_cs witness_server_done \<and>
   tls_session_receive_handshake witness_platform witness_server_done
     \<lparr>msg_type = SSL3_MT_FINISHED, msg_length = 12, body = replicate 12 14\<rparr> = Aborted \<and>
   tls_session_receive_ciphertext witness_platform witness_server_done
     ([22, 3, 3, 0, 40] @ replicate 8 0 @
      map (\<lambda>b. b + 1) ([20, 0, 0, 12] @ replicate 12 14) @ replicate 16 0xAA) = Aborted"
  by (simp add: witness_server_done_def
        receive_ciphertext_loop_Cons receive_ciphertext_loop_Nil
        receive_loop_Cons receive_loop_Nil
        const_defs codec_defs send_defs receive_defs witness_defs Let_def)

section \<open>The version in the record header\<close>

text \<open>
  C3. Every reachable session has the version 0x0303 that \<open>tls_session_init\<close> set, and
  for a session with that version every record \<open>tls_session_encrypt\<close> builds, with the
  null cipher or with AES-256-GCM, has a header of five bytes whose second and third byte
  are 0x03 0x03, the big-endian encoding of the version. (The code writes the field with
  the little-endian put; for 0x0303 the two encodings are the same bytes.)
\<close>

theorem record_header_version:
  "(reachable p s \<longrightarrow> version s = TLS1_2_VERSION) \<and>
   (version s = TLS1_2_VERSION \<longrightarrow> tls_session_encrypt p s t pt = Ok (s', c) \<longrightarrow>
      5 \<le> length c \<and> take 2 (drop 1 c) = put_uint16_be TLS1_2_VERSION \<and>
      c ! 1 = 0x03 \<and> c ! 2 = 0x03 \<and> version s' = TLS1_2_VERSION)"
proof (intro conjI impI)
  assume "reachable p s"
  then have "session_inv p s" by (rule reachable_inv)
  then show "version s = TLS1_2_VERSION"
    by (simp add: session_inv_def session_ok_def config_ok_def)
next
  assume v: "version s = TLS1_2_VERSION" and e: "tls_session_encrypt p s t pt = Ok (s', c)"
  from e v obtain rest where c: "c = [t, 0x03, 0x03] @ rest" and l: "2 \<le> length rest"
    by (auto simp: tls_session_encrypt_def Let_def put_uint8_def put_uint16_TLS1_2
          put_uint16_be_def RAND_bytes_def split: if_splits prod.splits)
  from e v have v': "version s' = TLS1_2_VERSION"
    by (auto simp: tls_session_encrypt_def Let_def RAND_bytes_def split: if_splits prod.splits)
  show "5 \<le> length c" using c l by simp
  show "take 2 (drop 1 c) = put_uint16_be TLS1_2_VERSION" using c by (simp add: put_uint16_TLS1_2)
  show "c ! 1 = 0x03" using c by simp
  show "c ! 2 = 0x03" using c by simp
  show "version s' = TLS1_2_VERSION" by (rule v')
qed

text \<open>
  The theorem on the concrete session after the handshake flight, for an application
  data record of three bytes under AES-256-GCM; and a record of the freshly initialised
  session under the null cipher.
\<close>

theorem record_header_version_witness:
  "reachable witness_platform witness_server_done \<and>
   version witness_server_done = TLS1_2_VERSION \<and>
   tls_session_encrypt witness_platform witness_server_done 23 [1, 2, 3]
     = Ok (witness_server_done\<lparr>rand_pos := 48, encr_seq_num := 2\<rparr>,
           [23, 3, 3, 0, 27] @ [40, 41, 42, 43, 44, 45, 46, 47] @ [2, 3, 4] @ replicate 16 0xAA) \<and>
   take 2 (drop 1 ([23, 3, 3, 0, 27] @ [40, 41, 42, 43, 44, 45, 46, 47] @ [2, 3, 4] @
                   replicate 16 (0xAA :: byte)))
     = put_uint16_be TLS1_2_VERSION \<and>
   tls_session_encrypt witness_platform witness_session 22 [1]
     = Ok (witness_session, [22, 3, 3, 0, 1, 1])"
  using record_header_version [of witness_platform witness_server_done 23 "[1, 2, 3]"
      "witness_server_done\<lparr>rand_pos := 48, encr_seq_num := 2\<rparr>"
      "[23, 3, 3, 0, 27] @ [40, 41, 42, 43, 44, 45, 46, 47] @ [2, 3, 4] @ replicate 16 0xAA"]
    reachable_witness_server_done witness_encrypt witness_encrypt_null
  by blast

section \<open>The layout of an AES-256-GCM record\<close>

text \<open>
  C4. While the write cipher is \<open>TLS_ECDH_ECDSA_WITH_AES_256_GCM_SHA384\<close>, and AES-GCM
  returns a ciphertext as long as the plaintext and a 16-byte tag, \<open>tls_session_encrypt\<close>
  succeeds and the record is the 5-byte header followed by the payload
  explicit nonce, ciphertext, tag, where
  \<^item> the explicit nonce is the 8 bytes drawn from the random generator for this record;
  \<^item> ciphertext and tag are what AES-256-GCM returns for the plaintext under \<open>encr_key\<close>,
    with the first 4 bytes of \<open>encr_iv\<close> followed by the explicit nonce as nonce, and with
    the sequence number, the content type, the version and the plaintext length as
    additional data; the ciphertext has the length of the plaintext, the tag 16 bytes;
  \<^item> the length field of the header is 8 + plaintext length + 16, written big-endian,
    for every plaintext whose record payload fits the 16-bit field (at most 65511 bytes of
    plaintext, which includes every record within the limit of 2^14 + 2048 bytes that the
    specification sets on a record);
  \<^item> the record has plaintext length + 5 + 8 + 16 bytes on the wire;
  \<^item> the session afterwards is the session before with \<open>encr_seq_num\<close> grown by exactly 1
    (and the random generator advanced by the 8 bytes of the nonce).
\<close>

theorem aead_record_layout:
  assumes "client_cs s = TLS_ECDH_ECDSA_WITH_AES_256_GCM_SHA384" and "gcm_sized p"
  shows "\<exists>s' nonce cdata tag len.
           nonce = map (RAND_byte p) [rand_pos s ..< rand_pos s + 8] \<and>
           (cdata, tag) =
             EVP_aes_256_gcm_encrypt p (encr_key s) (take 4 (encr_iv s) @ nonce)
               (put_uint64_be (encr_seq_num s) @ put_uint8 t @ put_uint16_be (version s) @
                put_uint16_be (of_nat (length pt)))
               pt \<and>
           len = of_nat (8 + length pt + 16) \<and>
           s' = s\<lparr>rand_pos := rand_pos s + 8, encr_seq_num := encr_seq_num s + 1\<rparr> \<and>
           tls_session_encrypt p s t pt =
             Ok (s', put_uint8 t @ put_uint16_le (version s) @ put_uint16_be len @
                     nonce @ cdata @ tag) \<and>
           length nonce = 8 \<and> length cdata = length pt \<and> length tag = 16 \<and>
           (length pt + 24 < 2 ^ 16 \<longrightarrow>
              unat len = 8 + length pt + 16 \<and>
              put_uint16_be len =
                [of_nat ((8 + length pt + 16) div 256), of_nat ((8 + length pt + 16) mod 256)]) \<and>
           length (put_uint8 t @ put_uint16_le (version s) @ put_uint16_be len @
                   nonce @ cdata @ tag) = length pt + 5 + 8 + 16 \<and>
           encr_seq_num s' = encr_seq_num s + 1"
proof -
  let ?nonce = "map (RAND_byte p) [rand_pos s ..< rand_pos s + 8]"
  let ?s1 = "s\<lparr>rand_pos := rand_pos s + 8\<rparr>"
  let ?aad = "put_uint64_be (encr_seq_num s) @ put_uint8 t @
              put_uint16_be (version s) @ put_uint16_be (of_nat (length pt))"
  let ?len = "of_nat (8 + length pt + 16) :: 16 word"
  obtain cdata tag where ct:
    "EVP_aes_256_gcm_encrypt p (encr_key s) (take 4 (encr_iv s) @ ?nonce) ?aad pt
       = (cdata, tag)"
    by fastforce
  have "length (fst (cdata, tag)) = length pt \<and> length (snd (cdata, tag)) = 16"
    using assms(2) unfolding gcm_sized_def ct [symmetric] by blast
  then have sz: "length cdata = length pt" "length tag = 16"
    by simp_all
  have ne: "TLS_ECDH_ECDSA_WITH_AES_256_GCM_SHA384 \<noteq> TLS_NULL_WITH_NULL_NULL"
    by (simp add: TLS_ECDH_ECDSA_WITH_AES_256_GCM_SHA384_def TLS_NULL_WITH_NULL_NULL_def)
  have r: "tls_session_encrypt p s t pt =
      Ok (s\<lparr>rand_pos := rand_pos s + 8, encr_seq_num := encr_seq_num s + 1\<rparr>,
          put_uint8 t @ put_uint16_le (version s) @ put_uint16_be ?len @
          ?nonce @ cdata @ tag)"
    using assms(1) ne sz ct
    by (simp add: tls_session_encrypt_def Let_def RAND_bytes_def put_data_def)
  have um: "unat ?len = (8 + length pt + 16) mod 2 ^ 16"
    by (simp only: unat_of_nat) simp
  have u: "unat ?len = 8 + length pt + 16" if "length pt + 24 < 2 ^ 16"
    using um that by simp
  have b: "put_uint16_be ?len =
      [of_nat ((8 + length pt + 16) div 256), of_nat ((8 + length pt + 16) mod 256)]"
    if "length pt + 24 < 2 ^ 16"
    using that by (intro put_uint16_be_of_nat) simp
  have l: "length (put_uint8 t @ put_uint16_le (version s) @ put_uint16_be ?len @
                   ?nonce @ cdata @ tag) = length pt + 5 + 8 + 16"
    using sz by (simp add: put_uint8_def put_uint16_le_def put_uint16_be_def)
  show ?thesis
    apply (rule exI [of _ "s\<lparr>rand_pos := rand_pos s + 8, encr_seq_num := encr_seq_num s + 1\<rparr>"])
    apply (rule exI [of _ ?nonce], rule exI [of _ cdata], rule exI [of _ tag])
    apply (rule exI [of _ ?len])
    using r u b l sz ct apply simp
    done
qed

text \<open>
  The theorem on the concrete session after the handshake flight, for a plaintext of
  three bytes: the header length field is 00 1B, that is 27 = 8 + 3 + 16.
\<close>

theorem aead_record_layout_witness:
  "client_cs witness_server_done = TLS_ECDH_ECDSA_WITH_AES_256_GCM_SHA384 \<and>
   gcm_sized witness_platform \<and>
   length [1, 2, 3 :: byte] + 24 < 2 ^ 16 \<and>
   (\<exists>s' nonce cdata tag.
      nonce = map (RAND_byte witness_platform)
                [rand_pos witness_server_done ..< rand_pos witness_server_done + 8] \<and>
      (cdata, tag) =
        EVP_aes_256_gcm_encrypt witness_platform (encr_key witness_server_done)
          (take 4 (encr_iv witness_server_done) @ nonce)
          (put_uint64_be (encr_seq_num witness_server_done) @ put_uint8 23 @
           put_uint16_be (version witness_server_done) @ put_uint16_be 3)
          [1, 2, 3] \<and>
      tls_session_encrypt witness_platform witness_server_done 23 [1, 2, 3] =
        Ok (s', [23] @ put_uint16_le (version witness_server_done) @ [0, 27] @
                nonce @ cdata @ tag) \<and>
      length nonce = 8 \<and> length cdata = 3 \<and> length tag = 16 \<and>
      encr_seq_num s' = encr_seq_num witness_server_done + 1)"
proof -
  note a = witness_server_done_fields(2) and b = witness_platform_contracts(1)
  have c: "length [1, 2, 3 :: byte] + 24 < 2 ^ 16" by simp
  from aead_record_layout [OF a b, of 23 "[1, 2, 3]"]
  obtain s' nonce cdata tag len where
    n0: "nonce = map (RAND_byte witness_platform)
                [rand_pos witness_server_done ..< rand_pos witness_server_done + 8]"
    and g: "(cdata, tag) =
        EVP_aes_256_gcm_encrypt witness_platform (encr_key witness_server_done)
          (take 4 (encr_iv witness_server_done) @ nonce)
          (put_uint64_be (encr_seq_num witness_server_done) @ put_uint8 23 @
           put_uint16_be (version witness_server_done) @
           put_uint16_be (of_nat (length [1, 2, 3 :: byte])))
          [1, 2, 3]"
    and e: "tls_session_encrypt witness_platform witness_server_done 23 [1, 2, 3] =
          Ok (s', put_uint8 23 @ put_uint16_le (version witness_server_done) @
                  put_uint16_be len @ nonce @ cdata @ tag)"
    and n: "length nonce = 8" and cl: "length cdata = length [1, 2, 3 :: byte]"
    and t: "length tag = 16"
    and u: "length [1, 2, 3 :: byte] + 24 < 2 ^ 16 \<longrightarrow>
              unat len = 8 + length [1, 2, 3 :: byte] + 16 \<and>
              put_uint16_be len =
                [of_nat ((8 + length [1, 2, 3 :: byte] + 16) div 256),
                 of_nat ((8 + length [1, 2, 3 :: byte] + 16) mod 256)]"
    and q: "encr_seq_num s' = encr_seq_num witness_server_done + 1"
    by blast
  from u c have u': "put_uint16_be len = [0, 27]" by simp
  from cl have c': "length cdata = 3" by simp
  from g have g': "(cdata, tag) =
        EVP_aes_256_gcm_encrypt witness_platform (encr_key witness_server_done)
          (take 4 (encr_iv witness_server_done) @ nonce)
          (put_uint64_be (encr_seq_num witness_server_done) @ put_uint8 23 @
           put_uint16_be (version witness_server_done) @ put_uint16_be 3)
          [1, 2, 3]" by simp
  from e u' have e': "tls_session_encrypt witness_platform witness_server_done 23 [1, 2, 3] =
        Ok (s', [23] @ put_uint16_le (version witness_server_done) @ [0, 27] @
                nonce @ cdata @ tag)"
    by (simp add: put_uint8_def)
  have "\<exists>s' nonce cdata tag.
      nonce = map (RAND_byte witness_platform)
                [rand_pos witness_server_done ..< rand_pos witness_server_done + 8] \<and>
      (cdata, tag) =
        EVP_aes_256_gcm_encrypt witness_platform (encr_key witness_server_done)
          (take 4 (encr_iv witness_server_done) @ nonce)
          (put_uint64_be (encr_seq_num witness_server_done) @ put_uint8 23 @
           put_uint16_be (version witness_server_done) @ put_uint16_be 3)
          [1, 2, 3] \<and>
      tls_session_encrypt witness_platform witness_server_done 23 [1, 2, 3] =
        Ok (s', [23] @ put_uint16_le (version witness_server_done) @ [0, 27] @
                nonce @ cdata @ tag) \<and>
      length nonce = 8 \<and> length cdata = 3 \<and> length tag = 16 \<and>
      encr_seq_num s' = encr_seq_num witness_server_done + 1"
    using n0 g' e' n c' t q by blast
  then show ?thesis using a b c by blast
qed

section \<open>The key block\<close>

text \<open>
  C5. When ServerHelloDone has been processed successfully by a session whose PRF digest
  is SHA-384, the master secret is the 48-byte PRF of the ECDH secret with label
  "master secret", and the key block is the 128-byte PRF of the master secret with label
  "key expansion", both seeded with client random followed by server random. Bytes 0-31
  of the key block are \<open>encr_key\<close>, bytes 32-63 \<open>decr_key\<close>, bytes 64-67 \<open>encr_iv\<close>
  and bytes 68-71 \<open>decr_iv\<close>.
\<close>

theorem key_block_split:
  assumes "tls_session_receive_handshake p s msg = Ok s'"
    and "msg_type msg = SSL3_MT_SERVER_DONE" and "hash_algo s = SN_sha384"
    and "kdf_sized p"
  shows "\<exists>key_block.
           EVP_KDF_derive p ''SHA384'' (master_secret s') ''key expansion''
             (take 32 (client_random s) @ take 32 (server_random s)) 128 = Some key_block \<and>
           length key_block = 128 \<and>
           encr_key s' = take 32 key_block \<and>
           decr_key s' = take 32 (drop 32 key_block) \<and>
           encr_iv s' = take 4 (drop 64 key_block) \<and>
           decr_iv s' = take 4 (drop 68 key_block) \<and>
           length (encr_key s') = 32 \<and> length (decr_key s') = 32 \<and>
           length (encr_iv s') = 4 \<and> length (decr_iv s') = 4 \<and>
           EVP_KDF_derive p ''SHA384''
             (EVP_PKEY_derive p (remote_cert_pub_key (pairing_data s))) ''master secret''
             (take 32 (client_random s) @ take 32 (server_random s)) 48
             = Some (master_secret s')"
proof -
  let ?s0 = "s\<lparr>handshake_buffer := handshake_buffer s @
                put_uint8 (msg_type msg) @ put_uint24_be (msg_length msg) @
                put_data (body msg) (unat (msg_length msg))\<rparr>"
  have "receive_server_done p ?s0 = Ok s'"
    using assms(1,2)
    by (simp add: tls_session_receive_handshake_def Let_def SSL3_MT_SERVER_DONE_def
          SSL3_MT_FINISHED_def SSL3_MT_SERVER_HELLO_def SSL3_MT_CERTIFICATE_REQUEST_def)
  then obtain s1 s2 kb where
    m: "server_done_messages p ?s0 = Ok s1" and
    k: "server_done_secrets p s1 = Ok (s2, kb)" and
    f: "server_done_finish p s2 kb = Ok s'"
    by (auto simp: receive_server_done_def split: if_splits outcome.splits)
  have f0: "send_frame s1 = send_frame s"
    using server_done_messages_frame [OF m] by (simp add: send_frame_def)
  note k' = server_done_secrets_result [OF k]
  note f' = server_done_finish_result [OF f]
  from k' have s2: "s2 = s1\<lparr>master_secret := master_secret s2\<rparr>" by simp
  have eqs: "hash_algo s1 = SN_sha384" "client_random s1 = client_random s"
    "server_random s1 = server_random s" "pairing_data s1 = pairing_data s"
    using f0 assms(3) by (simp_all add: send_frame_def)
  have kb: "EVP_KDF_derive p ''SHA384'' (master_secret s') ''key expansion''
             (take 32 (client_random s) @ take 32 (server_random s)) 128 = Some kb"
    using k' f' eqs by (simp add: SN_sha384_def)
  have ms: "EVP_KDF_derive p ''SHA384''
             (EVP_PKEY_derive p (remote_cert_pub_key (pairing_data s))) ''master secret''
             (take 32 (client_random s) @ take 32 (server_random s)) 48
             = Some (master_secret s')"
    using k' f' eqs by (simp add: SN_sha384_def)
  have len: "length kb = 128"
    using assms(4) kb unfolding kdf_sized_def by blast
  show ?thesis
    using kb ms len f' by simp
qed

text \<open>
  The theorem on the concrete platform, where processing ServerHelloDone succeeds.
\<close>

theorem key_block_split_witness:
  "tls_session_receive_handshake witness_platform witness_suite_handshake
     \<lparr>msg_type = SSL3_MT_SERVER_DONE, msg_length = 0, body = []\<rparr> = Ok witness_flight_sent \<and>
   hash_algo witness_suite_handshake = SN_sha384 \<and> kdf_sized witness_platform \<and>
   (\<exists>key_block.
      EVP_KDF_derive witness_platform ''SHA384'' (master_secret witness_flight_sent)
        ''key expansion''
        (take 32 (client_random witness_suite_handshake) @
         take 32 (server_random witness_suite_handshake)) 128 = Some key_block \<and>
      length key_block = 128 \<and>
      encr_key witness_flight_sent = take 32 key_block \<and>
      decr_key witness_flight_sent = take 32 (drop 32 key_block) \<and>
      encr_iv witness_flight_sent = take 4 (drop 64 key_block) \<and>
      decr_iv witness_flight_sent = take 4 (drop 68 key_block))"
proof -
  have t: "msg_type \<lparr>msg_type = SSL3_MT_SERVER_DONE, msg_length = 0, body = []\<rparr>
             = SSL3_MT_SERVER_DONE"
    by simp
  from key_block_split [OF witness_receive_server_done t witness_suite_handshake_fields
      witness_platform_contracts(2)]
  have "\<exists>key_block.
      EVP_KDF_derive witness_platform ''SHA384'' (master_secret witness_flight_sent)
        ''key expansion''
        (take 32 (client_random witness_suite_handshake) @
         take 32 (server_random witness_suite_handshake)) 128 = Some key_block \<and>
      length key_block = 128 \<and>
      encr_key witness_flight_sent = take 32 key_block \<and>
      decr_key witness_flight_sent = take 32 (drop 32 key_block) \<and>
      encr_iv witness_flight_sent = take 4 (drop 64 key_block) \<and>
      decr_iv witness_flight_sent = take 4 (drop 68 key_block)"
    by blast
  then show ?thesis
    using witness_receive_server_done witness_suite_handshake_fields
      witness_platform_contracts(2)
    by blast
qed

section \<open>The ClientHello\<close>

text \<open>
  C6 (as the code has it). The body of the ClientHello that \<open>tls_session_establish\<close>
  emits from a reachable session is exactly: the version 0x0303, the 32 bytes of client
  random, the session id length 7 and seven zero bytes, the cipher suites length 0x0002
  and the suite 0xC02E, one byte 0x00 (a compression methods length of zero, with no
  method after it), then the extension supported_groups (type 0x000A, length 4, data
  00 02 00 17) and the extension ec_point_formats (type 0x000B, length 2, data 01 00),
  with no 2-byte length in front of the two extensions. The message, with its 4-byte
  handshake header, is appended to the transcript and to the content buffer.
\<close>

theorem client_hello_emitted:
  assumes "reachable p s" and "tls_session_establish p s = Ok s'"
  shows "client_hello_body s =
           [0x03, 0x03] @ client_random s @ [7] @ replicate 7 0 @ [0x00, 0x02] @ [0xC0, 0x2E] @
           [0x00] @
           [0x00, 0x0A, 0x00, 0x04, 0x00, 0x02, 0x00, 0x17] @
           [0x00, 0x0B, 0x00, 0x02, 0x01, 0x00] \<and>
         length (client_random s) = 32 \<and>
         handshake_buffer s' = handshake_buffer s @ [1, 0, 0, 61] @ client_hello_body s \<and>
         content_buffer_type s' = SSL3_RT_HANDSHAKE \<and>
         content_buffer s' =
           (if content_buffer_type s = SSL3_RT_HANDSHAKE then content_buffer s else []) @
           [1, 0, 0, 61] @ client_hello_body s"
proof -
  have ok: "session_ok s" using assms(1) reachable_inv session_inv_ok by blast
  then have cfg: "config_ok s" by (simp add: session_ok_def)
  have ph: "handshake_phase s = HANDSHAKE_BEGIN"
    using assms(2) by (auto simp: tls_session_establish_def split: if_splits)
  note body = client_hello_body_exact [OF cfg ph]
  note bytes = client_hello_bytes_exact [OF cfg ph]
  have rl: "length (client_random s) = 32" using cfg by (simp add: config_ok_def RANDOM_SIZE_def)
  have len: "length (handshake_msg_bytes (client_hello_msg s)) < 2 ^ 16"
    using bytes body rl by simp
  obtain s1 where s1: "tls_session_send_handshake_msg p s (client_hello_msg s) = Ok s1"
    and s': "s' = s1\<lparr>handshake_phase := CLIENT_HELLO_SENT\<rparr>"
    using assms(2) ph
    by (auto simp: tls_session_establish_def tls_session_send_client_hello_def
          split: outcome.splits)
  have ty: "msg_type (client_hello_msg s) \<noteq> SSL3_MT_FINISHED"
    by (simp add: client_hello_msg_def Let_def SSL3_MT_CLIENT_HELLO_def SSL3_MT_FINISHED_def)
  from send_handshake_msg_frame [of p s "client_hello_msg s"] s1 ty
  have hb: "handshake_buffer s1 = handshake_buffer s @ handshake_msg_bytes (client_hello_msg s)"
    by (simp add: short_record_length [OF len])
  from send_handshake_msg_ok [OF ok, of p "client_hello_msg s"] s1
  have cb: "content_buffer_type s1 = SSL3_RT_HANDSHAKE"
    "content_buffer s1 =
       (if content_buffer_type s = SSL3_RT_HANDSHAKE then content_buffer s else []) @
       handshake_msg_bytes (client_hello_msg s)"
    by (simp_all add: short_record_length [OF len])
  show ?thesis using body rl hb cb s' bytes by simp
qed

text \<open>
  The theorem on the freshly initialised concrete session.
\<close>

theorem client_hello_emitted_witness:
  "reachable witness_platform witness_session \<and>
   tls_session_establish witness_platform witness_session = Ok witness_hello_sent \<and>
   client_hello_body witness_session =
     [0x03, 0x03] @ client_random witness_session @ [7] @ replicate 7 0 @ [0x00, 0x02] @
     [0xC0, 0x2E] @ [0x00] @
     [0x00, 0x0A, 0x00, 0x04, 0x00, 0x02, 0x00, 0x17] @
     [0x00, 0x0B, 0x00, 0x02, 0x01, 0x00] \<and>
   content_buffer witness_hello_sent = [1, 0, 0, 61] @ client_hello_body witness_session"
proof -
  note t = client_hello_emitted [OF reachable_witness_session witness_establish]
  have "content_buffer_type witness_session \<noteq> SSL3_RT_HANDSHAKE"
    by (simp add: witness_session_buffer SSL3_RT_HANDSHAKE_def)
  with t have "content_buffer witness_hello_sent = [1, 0, 0, 61] @ client_hello_body witness_session"
    by simp
  then show ?thesis using t reachable_witness_session witness_establish by blast
qed

text \<open>
  C6 as stated leaves the compression methods length out. On the freshly initialised
  concrete session the body that is emitted has 61 bytes, one more than the body the
  claim describes: after the cipher suite, at offset 46, the code has the byte 0x00 where
  the claimed body already has the first byte of the extension type, and at offset 47
  the code starts the extension type where the claimed body has its second byte 0x0A.
\<close>

theorem client_hello_emitted_counterexample:
  "tls_session_establish witness_platform witness_session = Ok witness_hello_sent \<and>
   content_buffer witness_hello_sent = [1, 0, 0, 61] @ client_hello_body witness_session \<and>
   length (client_hello_body witness_session) = 61 \<and>
   length (claimed_client_hello_body (version witness_session) (client_random witness_session))
     = 60 \<and>
   client_hello_body witness_session \<noteq>
     claimed_client_hello_body (version witness_session) (client_random witness_session) \<and>
   client_hello_body witness_session ! 46 = 0x00 \<and>
   claimed_client_hello_body (version witness_session) (client_random witness_session) ! 46 = 0x00 \<and>
   client_hello_body witness_session ! 47 = 0x00 \<and>
   claimed_client_hello_body (version witness_session) (client_random witness_session) ! 47 = 0x0A"
proof -
  have l1: "length (client_hello_body witness_session) = 61"
    by (simp add: const_defs codec_defs send_defs witness_defs Let_def)
  have l2: "length (claimed_client_hello_body (version witness_session)
                      (client_random witness_session)) = 60"
    by (simp add: claimed_client_hello_body_def const_defs codec_defs witness_defs Let_def)
  have ne: "client_hello_body witness_session \<noteq>
     claimed_client_hello_body (version witness_session) (client_random witness_session)"
  proof
    assume "client_hello_body witness_session =
      claimed_client_hello_body (version witness_session) (client_random witness_session)"
    then have "length (client_hello_body witness_session) =
      length (claimed_client_hello_body (version witness_session)
                (client_random witness_session))"
      by simp
    with l1 l2 show False by simp
  qed
  have cb: "content_buffer witness_hello_sent = [1, 0, 0, 61] @ client_hello_body witness_session"
    by (simp add: witness_hello_sent_def const_defs codec_defs send_defs witness_defs Let_def)
  have b: "client_hello_body witness_session ! 46 = 0x00"
    "client_hello_body witness_session ! 47 = 0x00"
    "claimed_client_hello_body (version witness_session) (client_random witness_session) ! 46 = 0x00"
    "claimed_client_hello_body (version witness_session) (client_random witness_session) ! 47 = 0x0A"
    by (simp_all add: claimed_client_hello_body_def const_defs codec_defs send_defs witness_defs
          Let_def nth_append)
  show ?thesis using witness_establish cb l1 l2 ne b by blast
qed

section \<open>ChangeCipherSpec with no pending cipher\<close>

text \<open>
  C7 (as the code has it). A ChangeCipherSpec record that arrives while the pending cipher
  state is \<open>TLS_NULL_WITH_NULL_NULL\<close> is not refused: \<open>tls_session_receive\<close> returns
  TRUE, the read cipher state becomes the pending one, that is \<open>TLS_NULL_WITH_NULL_NULL\<close>,
  and the pending state stays \<open>TLS_NULL_WITH_NULL_NULL\<close>. No AEAD read cipher is
  activated and no error is raised.
\<close>

theorem ccs_without_pending_cipher:
  assumes "pending_cs s = TLS_NULL_WITH_NULL_NULL"
  shows "tls_session_receive p s
           \<lparr>rec_type = SSL3_RT_CHANGE_CIPHER_SPEC, rec_version = v, rec_length = 1,
            fragment = [1]\<rparr>
         = Ok (s\<lparr>server_cs := TLS_NULL_WITH_NULL_NULL, pending_cs := TLS_NULL_WITH_NULL_NULL\<rparr>)"
  using assms
  by (simp add: tls_session_receive_def receive_loop_Cons receive_loop_Nil receive_body_def
        receive_change_cipher_spec_def get_uint8_def)

text \<open>
  The theorem at the freshly initialised session.
\<close>

theorem ccs_without_pending_cipher_witness:
  "pending_cs witness_session = TLS_NULL_WITH_NULL_NULL \<and>
   tls_session_receive witness_platform witness_session
     \<lparr>rec_type = SSL3_RT_CHANGE_CIPHER_SPEC, rec_version = 0x0303, rec_length = 1,
      fragment = [1]\<rparr>
   = Ok (witness_session\<lparr>server_cs := TLS_NULL_WITH_NULL_NULL,
                          pending_cs := TLS_NULL_WITH_NULL_NULL\<rparr>)"
  using ccs_without_pending_cipher [of witness_session witness_platform "0x0303"]
  by (simp add: witness_session_fields TLS_NULL_WITH_NULL_NULL_def)

text \<open>
  C7 as stated asks for a failure. On the freshly initialised session, where no
  ServerHello has been seen, the record and the six wire bytes that carry it are accepted
  and leave the session as it was.
\<close>

theorem ccs_without_pending_cipher_counterexample:
  "pending_cs witness_session = TLS_NULL_WITH_NULL_NULL \<and>
   tls_session_receive witness_platform witness_session
     \<lparr>rec_type = SSL3_RT_CHANGE_CIPHER_SPEC, rec_version = 0x0303, rec_length = 1,
      fragment = [1]\<rparr> = Ok witness_session \<and>
   tls_session_receive_ciphertext witness_platform witness_session [20, 3, 3, 0, 1, 1]
     = Ok witness_session"
proof -
  have same: "witness_session\<lparr>server_cs := pending_cs witness_session,
                pending_cs := TLS_NULL_WITH_NULL_NULL\<rparr> = witness_session"
    by (simp add: witness_session_fields TLS_NULL_WITH_NULL_NULL_def)
  have rec: "tls_session_receive witness_platform witness_session
     \<lparr>rec_type = SSL3_RT_CHANGE_CIPHER_SPEC, rec_version = 0x0303, rec_length = 1,
      fragment = [1]\<rparr> = Ok witness_session"
    by (simp add: tls_session_receive_def receive_loop_Cons receive_loop_Nil receive_body_def
        receive_change_cipher_spec_def get_uint8_def same)
  have rd: "read_record [20, 3, 3, 0, 1, 1] = Some ((20, 0x0303, [1]), [])"
    by (simp add: read_record_def get_uint8_def get_uint16_be_def dup_data_def)
  have "tls_session_receive_ciphertext witness_platform witness_session [20, 3, 3, 0, 1, 1]
     = Ok witness_session"
    apply (simp add: tls_session_receive_ciphertext_def witness_session_fields)
    apply (subst tls_session_receive_ciphertext_loop.simps)
    apply (simp add: rd witness_session_fields tls_session_decrypt_def TLS_NULL_WITH_NULL_NULL_def)
    apply (subst tls_session_receive_ciphertext_loop.simps)
    using rec apply (simp add: SSL3_RT_CHANGE_CIPHER_SPEC_def witness_session_fields)
    done
  then show ?thesis using rec by (simp add: witness_session_fields TLS_NULL_WITH_NULL_NULL_def)
qed

section \<open>Received alerts\<close>

text \<open>
  C8 (as the code has it). What \<open>tls_session_receive\<close> does with an alert record of
  two bytes, level and description. A close_notify of either level, received when the
  local send side is already closed, sets \<open>recv_closed\<close> and succeeds, and nothing is
  emitted. Received when the local send side is not yet closed, it makes the session run
  \<open>tls_session_close\<close> (which queues its own close_notify and sets \<open>send_closed\<close>) and
  then stop on a failed assertion: the call never returns TRUE. A fatal alert with another
  description ends the same way. Any other alert is skipped and leaves the session as it
  was.
\<close>

theorem close_notify_alert_handling:
  "tls_session_receive p s
     \<lparr>rec_type = SSL3_RT_ALERT, rec_version = v, rec_length = 2,
      fragment = [level, description]\<rparr> =
     (if description = SSL3_AD_CLOSE_NOTIFY then
        (if send_closed s then Ok (s\<lparr>recv_closed := True\<rparr>)
         else (case tls_session_close p s of
                 Failed e s1 \<Rightarrow> Failed e s1 | Ok s1 \<Rightarrow> Aborted | Aborted \<Rightarrow> Aborted))
      else if level = SSL3_AL_FATAL then
        (case tls_session_close p s of
           Failed e s1 \<Rightarrow> Failed e s1 | Ok s1 \<Rightarrow> Aborted | Aborted \<Rightarrow> Aborted)
      else Ok s)"
  by (simp add: tls_session_receive_def receive_loop_Cons receive_loop_Nil receive_body_def
        receive_alert_def get_uint8_def SSL3_RT_ALERT_def SSL3_RT_CHANGE_CIPHER_SPEC_def
      split: outcome.splits)

text \<open>
  C8 as stated: a warning close_notify is processed without a fatal error, and no other
  alert is recoverable. On the freshly initialised session, whose send side is open, the
  warning close_notify ends in the failed assertion, and the warning alert 90
  (user_canceled) is accepted with the session unchanged.
\<close>

theorem close_notify_alert_handling_counterexample:
  "send_closed witness_session = False \<and>
   tls_session_receive witness_platform witness_session
     \<lparr>rec_type = SSL3_RT_ALERT, rec_version = 0x0303, rec_length = 2,
      fragment = [SSL3_AL_WARNING, SSL3_AD_CLOSE_NOTIFY]\<rparr> = Aborted \<and>
   tls_session_receive witness_platform witness_session
     \<lparr>rec_type = SSL3_RT_ALERT, rec_version = 0x0303, rec_length = 2,
      fragment = [SSL3_AL_WARNING, 90]\<rparr> = Ok witness_session"
  by (simp add: tls_session_receive_def receive_loop_Cons receive_loop_Nil receive_body_def
        receive_alert_def get_uint8_def SSL3_RT_ALERT_def SSL3_RT_CHANGE_CIPHER_SPEC_def
        SSL3_AD_CLOSE_NOTIFY_def SSL3_AL_WARNING_def SSL3_AL_FATAL_def
        tls_session_close_def tls_session_send_alert_def tls_session_send_def Let_def
        witness_session_fields witness_session_buffer)

section \<open>The content buffer and its type\<close>

text \<open>
  C9. In every session reachable through the public functions (a wrap of a zero-length
  payload among them; the ephemeral public key being the 65 bytes of a P-256 point), a
  \<open>content_buffer_type\<close> other than 0 implies that the content buffer is not empty and
  that each of its bytes was appended for a record of exactly that type:
  \<open>content_buffer_owner\<close> has one entry for each byte of the buffer, the type of the
  record that \<open>tls_session_send\<close> appended it for.
\<close>

theorem content_buffer_invariant:
  assumes "reachable p s" and "p256_point p" and "content_buffer_type s \<noteq> 0"
  shows "content_buffer s \<noteq> [] \<and>
         length (content_buffer_owner s) = length (content_buffer s) \<and>
         (\<forall>t \<in> set (content_buffer_owner s). t = content_buffer_type s)"
  using reachable_inv [OF assms(1)] assms(2,3)
  by (simp add: session_inv_def session_ok_def buffer_ok_def)

text \<open>
  The theorem on the concrete session that holds the client's Finished, of type 22, in
  its content buffer; and the session after a wrap of the empty payload, which is
  reachable and has the type 0.
\<close>

theorem content_buffer_invariant_witness:
  "reachable witness_platform witness_flight_sent \<and> p256_point witness_platform \<and>
   content_buffer_type witness_flight_sent = 22 \<and>
   content_buffer witness_flight_sent \<noteq> [] \<and>
   length (content_buffer_owner witness_flight_sent) = length (content_buffer witness_flight_sent) \<and>
   set (content_buffer_owner witness_flight_sent) = {22} \<and>
   reachable witness_platform (witness_server_done\<lparr>rand_pos := 48, encr_seq_num := 2\<rparr>) \<and>
   content_buffer_type (witness_server_done\<lparr>rand_pos := 48, encr_seq_num := 2\<rparr>) = 0"
proof -
  have ty: "content_buffer_type witness_flight_sent \<noteq> 0"
    by (simp add: witness_flight_sent_fields)
  note t = content_buffer_invariant [OF reachable_witness_flight_sent
      witness_platform_contracts(3) ty]
  have o: "set (content_buffer_owner witness_flight_sent) = {22}"
    by (simp add: witness_flight_sent_fields)
  have w: "reachable witness_platform (witness_server_done\<lparr>rand_pos := 48, encr_seq_num := 2\<rparr>)"
    by (rule reachable.wrap [OF reachable_witness_server_done, of "[]"])
       (simp add: witness_wrap_empty)
  have z: "content_buffer_type (witness_server_done\<lparr>rand_pos := 48, encr_seq_num := 2\<rparr>) = 0"
    by (simp add: witness_server_done_def witness_defs Let_def)
  show ?thesis
    using t o w z reachable_witness_flight_sent witness_platform_contracts(3)
      witness_flight_sent_fields(1)
    by blast
qed

section \<open>Flushing the send buffer\<close>

text \<open>
  C10. After a successful \<open>tls_session_flush_send_buffer\<close> on a reachable session, the
  send buffer and the content buffer are empty and \<open>content_buffer_type\<close> is 0, so
  \<open>tls_session_has_data\<close> is false, and a second flush right after it succeeds with
  a zero-length byte string and the same session.
\<close>

theorem flush_send_buffer_idempotent:
  assumes "reachable p s" and "tls_session_flush_send_buffer p s = Ok (s', out)"
  shows "send_buffer s' = [] \<and> content_buffer s' = [] \<and> content_buffer_type s' = 0 \<and>
         \<not> tls_session_has_data s' \<and> tls_session_flush_send_buffer p s' = Ok (s', [])"
proof -
  have "session_ok s" using assms(1) reachable_inv session_inv_ok by blast
  from flush_send_buffer_ok [OF this, of p] assms(2)
  obtain s1 where s': "s' = s1\<lparr>send_buffer := []\<rparr>"
    and cb: "content_buffer s1 = []" and ty: "content_buffer_type s1 = 0"
    by auto
  have again: "tls_session_flush_send_buffer p s' = Ok (s', [])"
    using s' ty
    by (simp add: tls_session_flush_send_buffer_def tls_session_flush_content_buffer_def)
  show ?thesis using s' cb ty again by (simp add: tls_session_has_data_def)
qed

text \<open>
  The theorem on the concrete session that holds the client's flight: it has data, the
  flush hands the flight out, and the session it leaves has none.
\<close>

theorem flush_send_buffer_idempotent_witness:
  "reachable witness_platform witness_flight_sent \<and>
   tls_session_flush_send_buffer witness_platform witness_flight_sent
     = Ok (witness_flight_flushed,
           send_buffer witness_flight_sent @
           [22, 3, 3, 0, 40] @ [32, 33, 34, 35, 36, 37, 38, 39] @
           map (\<lambda>b. b + 1) (handshake_msg_bytes (finished_msg (replicate 12 15))) @
           replicate 16 0xAA) \<and>
   tls_session_has_data witness_flight_sent \<and>
   \<not> tls_session_has_data witness_flight_flushed \<and>
   tls_session_flush_send_buffer witness_platform witness_flight_flushed
     = Ok (witness_flight_flushed, [])"
proof -
  note t = flush_send_buffer_idempotent [OF reachable_witness_flight_sent witness_flush_flight]
  have "tls_session_has_data witness_flight_sent"
    by (simp add: tls_session_has_data_def witness_flight_sent_def)
  then show ?thesis using t reachable_witness_flight_sent witness_flush_flight by blast
qed

end
